theory Spec2Isabelle
  imports Main "HOL-Library.Stream"
begin

section \<open>The GAN volume renderer of threestudio\<close>

text \<open>
  A shallow embedding of \<^verbatim>\<open>threestudio/models/renderers/gan_volume_renderer.py\<close>:
  the class \<^verbatim>\<open>GANVolumeRenderer\<close> with its methods \<^verbatim>\<open>forward\<close>,
  \<^verbatim>\<open>update_step\<close>, \<^verbatim>\<open>train\<close> and \<^verbatim>\<open>eval\<close>.

  The method \<^verbatim>\<open>forward\<close> computes nothing numerical by itself: it reshapes
  tensors, calls the wrapped networks and assembles a dictionary. The embedding therefore
  keeps, for every tensor, the buffer it lives in, the view it has on that buffer and its
  shape, and leaves the floating-point contents of the buffers out.
\<close>

subsection \<open>Python values\<close>

datatype error =
    ValueError | KeyError | TypeError | IndexError | AttributeError
  | RuntimeError | UnboundLocalError | Raised string

type_synonym addr = nat

text \<open>
  A view of a buffer: \<^verbatim>\<open>permute\<close> reorders the dimensions, and the slices
  \<^verbatim>\<open>[..., :3]\<close> and \<^verbatim>\<open>[..., 3:]\<close> narrow the last one (start and length).
\<close>

datatype vop = Permute "nat list" | NarrowLast nat nat

datatype tensor = Tensor (storage: addr) (view: "vop list") (shape: "nat list")

text \<open>
  An instance of \<^verbatim>\<open>DiagonalGaussianDistribution\<close>: the identity of the object and
  the tensor of parameters it was built from.
\<close>

datatype dist = Dist (dist_id: nat) (parameters: tensor)

datatype pyval = PyNone | PyInt int | PyTensor tensor | PyDist dist

type_synonym pydict = "string \<rightharpoonup> pyval"

datatype interp_mode = Nearest | Bilinear

subsection \<open>The state of a call\<close>

text \<open>
  What the callees of \<^verbatim>\<open>forward\<close> share: the global random generator of torch,
  as the sequence of raw numbers it is going to produce, and the allocator of buffers.
\<close>

record machine =
  rng :: "nat stream"
  next_addr :: addr

text \<open>
  Every call out of \<^verbatim>\<open>forward\<close> is recorded with its arguments and its result,
  in the order of the calls. The record is not part of the program: it is how a property
  about what was passed to a callee is stated.
\<close>

datatype event =
    is_randint: EvRandint int int int
  | is_interpolate: EvInterpolate tensor "nat \<times> nat" interp_mode tensor
  | is_base_renderer: EvBaseRenderer tensor tensor tensor "tensor option" pydict pydict
  | is_clone: EvClone tensor tensor
  | is_new_dist: EvNewDist tensor dist
  | is_sample: EvSample dist tensor
  | is_global_encoder: EvGlobalEncoder tensor tensor
  | is_local_encoder: EvLocalEncoder tensor tensor
  | is_cat: EvCat tensor tensor tensor
  | is_generator: EvGenerator tensor tensor tensor

record state =
  mach :: machine
  next_obj :: nat
  trace :: "event list"

type_synonym 'a comp = "state \<Rightarrow> error + ('a \<times> state)"

definition ret :: "'a \<Rightarrow> 'a comp" where
  "ret x s = Inr (x, s)"

definition lift :: "error + 'a \<Rightarrow> 'a comp" where
  "lift r s = (case r of Inl e \<Rightarrow> Inl e | Inr x \<Rightarrow> Inr (x, s))"

definition andThen :: "'a comp \<Rightarrow> ('a \<Rightarrow> 'b comp) \<Rightarrow> 'b comp" where
  "andThen m f s = (case m s of Inl e \<Rightarrow> Inl e | Inr (x, s') \<Rightarrow> f x s')"

subsection \<open>The operations of torch that forward uses\<close>

text \<open>\<^verbatim>\<open>B, H, W, _ = rays_o.shape\<close>: unpacking fails unless there are four dimensions.\<close>

definition unpack_shape4 :: "tensor \<Rightarrow> error + (nat \<times> nat \<times> nat \<times> nat)" where
  "unpack_shape4 t =
     (case shape t of [b, h, w, c] \<Rightarrow> Inr (b, h, w, c) | _ \<Rightarrow> Inl ValueError)"

text \<open>
  \<^verbatim>\<open>t.permute(dims)\<close>: a view of the same buffer. There must be as many
  \<^verbatim>\<open>dims\<close> as dimensions; they are then checked from left to right, each one
  for being a dimension of \<^verbatim>\<open>t\<close> (an index error otherwise) and for not having
  occurred before.
\<close>

fun permute_check :: "nat \<Rightarrow> nat list \<Rightarrow> nat list \<Rightarrow> error option" where
  "permute_check n seen [] = None"
| "permute_check n seen (d # ds) =
     (if n \<le> d then Some IndexError
      else if d \<in> set seen then Some RuntimeError
      else permute_check n (d # seen) ds)"

definition permute :: "nat list \<Rightarrow> tensor \<Rightarrow> error + tensor" where
  "permute dims t =
     (if length dims \<noteq> length (shape t) then Inl RuntimeError
      else (case permute_check (length (shape t)) [] dims of
              Some e \<Rightarrow> Inl e
            | None \<Rightarrow>
                Inr (Tensor (storage t) (view t @ [Permute dims]) (map (\<lambda>d. shape t ! d) dims))))"

text \<open>\<^verbatim>\<open>t[..., :n]\<close>: the first \<^verbatim>\<open>n\<close> channels of the last dimension, as a view.\<close>

definition slice_last_to :: "nat \<Rightarrow> tensor \<Rightarrow> error + tensor" where
  "slice_last_to n t =
     (case rev (shape t) of
        [] \<Rightarrow> Inl IndexError
      | c # rest \<Rightarrow>
          Inr (Tensor (storage t) (view t @ [NarrowLast 0 (min n c)]) (rev rest @ [min n c])))"

text \<open>\<^verbatim>\<open>t[..., n:]\<close>: the channels from \<^verbatim>\<open>n\<close> on, as a view; none when there are fewer.\<close>

definition slice_last_from :: "nat \<Rightarrow> tensor \<Rightarrow> error + tensor" where
  "slice_last_from n t =
     (case rev (shape t) of
        [] \<Rightarrow> Inl IndexError
      | c # rest \<Rightarrow>
          Inr (Tensor (storage t) (view t @ [NarrowLast (min n c) (if c \<le> n then 0 else c - n)])
                 (rev rest @ [if c \<le> n then 0 else c - n])))"

text \<open>\<^verbatim>\<open>t.detach()\<close>: the same view of the same buffer, cut off from the gradient graph.\<close>

definition detach :: "tensor \<Rightarrow> tensor" where
  "detach t = Tensor (storage t) (view t) (shape t)"

text \<open>A new buffer, holding a tensor of the given shape.\<close>

definition alloc :: "nat list \<Rightarrow> state \<Rightarrow> tensor \<times> state" where
  "alloc shp s =
     (Tensor (next_addr (mach s)) [] shp,
      s\<lparr>mach := (mach s)\<lparr>next_addr := Suc (next_addr (mach s))\<rparr>\<rparr>)"

definition record_call :: "event \<Rightarrow> state \<Rightarrow> state" where
  "record_call e s = s\<lparr>trace := trace s @ [e]\<rparr>"

text \<open>\<^verbatim>\<open>t.clone()\<close>: a copy in a buffer of its own.\<close>

definition clone :: "tensor \<Rightarrow> tensor comp" where
  "clone t s = (case alloc (shape t) s of (y, s') \<Rightarrow> Inr (y, record_call (EvClone t y) s'))"

text \<open>
  \<^verbatim>\<open>torch.nn.functional.interpolate(x, (h, w), mode=...)\<close> on an image batch: the
  input has four dimensions, of which only the batch may be empty, and both sizes asked
  for are positive; the result is a new tensor of the size asked for.
\<close>

definition interpolate :: "tensor \<Rightarrow> nat \<times> nat \<Rightarrow> interp_mode \<Rightarrow> tensor comp" where
  "interpolate x sz mode s =
     (case shape x of
        [n, c, h, w] \<Rightarrow>
          if c = 0 \<or> h = 0 \<or> w = 0 then Inl RuntimeError
          else if fst sz = 0 \<or> snd sz = 0 then Inl RuntimeError
          else (case alloc [n, c, fst sz, snd sz] s of
                  (y, s') \<Rightarrow> Inr (y, record_call (EvInterpolate x sz mode y) s'))
      | _ \<Rightarrow> Inl ValueError)"

text \<open>
  \<^verbatim>\<open>torch.cat([a, b], dim=1)\<close>: neither tensor is a scalar; an empty tensor of
  one dimension is skipped, as torch has always done; the first tensor that is left must
  have a second dimension (an index error otherwise), and the two must have the same
  number of dimensions and agree on every dimension but the second. The result is a new
  tensor.
\<close>

definition cat_dim1 :: "tensor \<Rightarrow> tensor \<Rightarrow> tensor comp" where
  "cat_dim1 a b s =
     (if shape a = [] \<or> shape b = [] then Inl RuntimeError
      else if shape a = [0] \<and> shape b = [0] then
        (case alloc [0] s of (y, s') \<Rightarrow> Inr (y, record_call (EvCat a b y) s'))
      else if shape a = [0] \<or> shape b = [0] then
        (let t = (if shape a = [0] then b else a)
         in if 1 < length (shape t)
            then (case alloc (shape t) s of (y, s') \<Rightarrow> Inr (y, record_call (EvCat a b y) s'))
            else Inl IndexError)
      else if length (shape a) \<le> 1 then Inl IndexError
      else if length (shape a) = length (shape b) \<and> (shape a)[1 := 0] = (shape b)[1 := 0]
      then (case alloc ((shape a)[1 := shape a ! 1 + shape b ! 1]) s of
              (y, s') \<Rightarrow> Inr (y, record_call (EvCat a b y) s'))
      else Inl RuntimeError)"

text \<open>
  \<^verbatim>\<open>torch.randint(low, high, (1,)).item()\<close>: one raw number of the generator,
  reduced to the range.
\<close>

definition randint :: "int \<Rightarrow> int \<Rightarrow> int comp" where
  "randint low high s =
     (if low < high then
        (let r = low + int (shd (rng (mach s))) mod (high - low)
         in Inr (r, record_call (EvRandint low high r)
                      (s\<lparr>mach := (mach s)\<lparr>rng := stl (rng (mach s))\<rparr>\<rparr>)))
      else Inl RuntimeError)"

subsection \<open>The modules the renderer wraps\<close>

text \<open>
  The base renderer, the encoders, the generator and the class of the latent distribution
  are defined in other files: they are parameters here. Each may fail, draw random
  numbers and allocate.
\<close>

record modules =
  base_renderer ::
    "tensor \<Rightarrow> tensor \<Rightarrow> tensor \<Rightarrow> tensor option \<Rightarrow> pydict \<Rightarrow> machine \<Rightarrow> error + (pydict \<times> machine)"
  global_encoder :: "tensor \<Rightarrow> machine \<Rightarrow> error + (tensor \<times> machine)"
  local_encoder :: "tensor \<Rightarrow> machine \<Rightarrow> error + (tensor \<times> machine)"
  generator :: "tensor \<Rightarrow> tensor \<Rightarrow> machine \<Rightarrow> error + (tensor \<times> machine)"
  dist_init :: "tensor \<Rightarrow> machine \<Rightarrow> error + machine"
  dist_sample :: "tensor \<Rightarrow> machine \<Rightarrow> error + (tensor \<times> machine)"
  dist_mode :: "tensor \<Rightarrow> machine \<Rightarrow> error + (tensor \<times> machine)"

definition call_base_renderer ::
  "modules \<Rightarrow> tensor \<Rightarrow> tensor \<Rightarrow> tensor \<Rightarrow> tensor option \<Rightarrow> pydict \<Rightarrow> pydict comp" where
  "call_base_renderer self ro rd lp bg kwargs s =
     (case base_renderer self ro rd lp bg kwargs (mach s) of
        Inl e \<Rightarrow> Inl e
      | Inr (out, m) \<Rightarrow> Inr (out, record_call (EvBaseRenderer ro rd lp bg kwargs out) (s\<lparr>mach := m\<rparr>)))"

definition call_global_encoder :: "modules \<Rightarrow> tensor \<Rightarrow> tensor comp" where
  "call_global_encoder self x s =
     (case global_encoder self x (mach s) of
        Inl e \<Rightarrow> Inl e
      | Inr (y, m) \<Rightarrow> Inr (y, record_call (EvGlobalEncoder x y) (s\<lparr>mach := m\<rparr>)))"

definition call_local_encoder :: "modules \<Rightarrow> tensor \<Rightarrow> tensor comp" where
  "call_local_encoder self x s =
     (case local_encoder self x (mach s) of
        Inl e \<Rightarrow> Inl e
      | Inr (y, m) \<Rightarrow> Inr (y, record_call (EvLocalEncoder x y) (s\<lparr>mach := m\<rparr>)))"

definition call_generator :: "modules \<Rightarrow> tensor \<Rightarrow> tensor \<Rightarrow> tensor comp" where
  "call_generator self x g s =
     (case generator self x g (mach s) of
        Inl e \<Rightarrow> Inl e
      | Inr (y, m) \<Rightarrow> Inr (y, record_call (EvGenerator x g y) (s\<lparr>mach := m\<rparr>)))"

text \<open>
  \<^verbatim>\<open>DiagonalGaussianDistribution(parameters)\<close>: the constructor runs, and the result
  is an object that did not exist before.
\<close>

definition DiagonalGaussianDistribution :: "modules \<Rightarrow> tensor \<Rightarrow> dist comp" where
  "DiagonalGaussianDistribution self p s =
     (case dist_init self p (mach s) of
        Inl e \<Rightarrow> Inl e
      | Inr m \<Rightarrow>
          (let d = Dist (next_obj s) p
           in Inr (d, record_call (EvNewDist p d) (s\<lparr>mach := m, next_obj := Suc (next_obj s)\<rparr>))))"

text \<open>\<^verbatim>\<open>posterior.sample()\<close>\<close>

definition sample :: "modules \<Rightarrow> dist \<Rightarrow> tensor comp" where
  "sample self d s =
     (case dist_sample self (parameters d) (mach s) of
        Inl e \<Rightarrow> Inl e
      | Inr (z, m) \<Rightarrow> Inr (z, record_call (EvSample d z) (s\<lparr>mach := m\<rparr>)))"

subsection \<open>forward\<close>

text \<open>Lines 66 to 72: the guidance level of the call.\<close>

definition choose_generator_level :: "tensor option \<Rightarrow> bool \<Rightarrow> int comp" where
  "choose_generator_level gt_rgb multi_level_guidance =
     (if gt_rgb \<noteq> None \<and> multi_level_guidance then randint 0 3 else ret 0)"

text \<open>
  Lines 73 to 76, once for the origins and once for the directions:
  \<^verbatim>\<open>interpolate(rays.permute(0, 3, 1, 2), (H // 4, W // 4), mode='bilinear').permute(0, 2, 3, 1)\<close>
\<close>

definition downsample_rays :: "nat \<Rightarrow> nat \<Rightarrow> tensor \<Rightarrow> tensor comp" where
  "downsample_rays H W rays =
     andThen (lift (permute [0, 3, 1, 2] rays)) (\<lambda>rays_p.
     andThen (interpolate rays_p (H div 4, W div 4) Bilinear) (\<lambda>rays_i.
     lift (permute [0, 2, 3, 1] rays_i)))"

text \<open>\<^verbatim>\<open>out["comp_rgb"]\<close>, which is then sliced as a tensor.\<close>

definition lookup_tensor :: "pydict \<Rightarrow> string \<Rightarrow> error + tensor" where
  "lookup_tensor out k =
     (case out k of
        None \<Rightarrow> Inl KeyError
      | Some (PyTensor t) \<Rightarrow> Inr t
      | Some _ \<Rightarrow> Inl TypeError)"

text \<open>\<^verbatim>\<open>gt_rgb.permute(0, 3, 1, 2)\<close>, where \<^verbatim>\<open>gt_rgb\<close> may be \<^verbatim>\<open>None\<close>.\<close>

definition permute_gt :: "tensor option \<Rightarrow> error + tensor" where
  "permute_gt gt_rgb =
     (case gt_rgb of None \<Rightarrow> Inl AttributeError | Some t \<Rightarrow> permute [0, 3, 1, 2] t)"

text \<open>
  Lines 90 to 102: the branch on the guidance level. It returns the posterior and the
  output of the generator; at a level other than 0, 1 and 2 no branch runs and
  \<^verbatim>\<open>comp_gan_rgb\<close> is unbound where line 107 reads it.
\<close>

definition guidance_branch ::
  "modules \<Rightarrow> int \<Rightarrow> tensor option \<Rightarrow> tensor \<Rightarrow> tensor \<Rightarrow> dist \<Rightarrow> (dist \<times> tensor) comp" where
  "guidance_branch self generator_level gt_rgb lr_rgb z_map posterior =
     (if generator_level = 0 then
        andThen (interpolate lr_rgb (224, 224) Nearest) (\<lambda>lr_224.
        andThen (call_global_encoder self lr_224) (\<lambda>g_code_rgb.
        andThen (cat_dim1 lr_rgb z_map) (\<lambda>x.
        andThen (call_generator self x g_code_rgb) (\<lambda>comp_gan_rgb.
        ret (posterior, comp_gan_rgb)))))
      else if generator_level = 1 then
        andThen (lift (permute_gt gt_rgb)) (\<lambda>gt_p.
        andThen (interpolate gt_p (224, 224) Nearest) (\<lambda>gt_224.
        andThen (call_global_encoder self gt_224) (\<lambda>g_code_rgb.
        andThen (cat_dim1 lr_rgb z_map) (\<lambda>x.
        andThen (call_generator self x g_code_rgb) (\<lambda>comp_gan_rgb.
        ret (posterior, comp_gan_rgb))))))
      else if generator_level = 2 then
        andThen (lift (permute_gt gt_rgb)) (\<lambda>gt_p.
        andThen (interpolate gt_p (224, 224) Nearest) (\<lambda>gt_224.
        andThen (call_global_encoder self gt_224) (\<lambda>g_code_rgb.
        andThen (lift (permute_gt gt_rgb)) (\<lambda>gt_p2.
        andThen (call_local_encoder self gt_p2) (\<lambda>l_code_rgb.
        andThen (DiagonalGaussianDistribution self l_code_rgb) (\<lambda>posterior2.
        andThen (sample self posterior2) (\<lambda>z_map2.
        andThen (cat_dim1 lr_rgb z_map2) (\<lambda>x.
        andThen (call_generator self x g_code_rgb) (\<lambda>comp_gan_rgb.
        ret (posterior2, comp_gan_rgb))))))))))
      else lift (Inl UnboundLocalError))"

text \<open>
  The value of \<^verbatim>\<open>gt_rgb\<close> as the dictionary stores it.
\<close>

definition py_of_gt :: "tensor option \<Rightarrow> pyval" where
  "py_of_gt gt_rgb = (case gt_rgb of None \<Rightarrow> PyNone | Some t \<Rightarrow> PyTensor t)"

text \<open>
  Lines 77 to 111: the call of the base renderer on the resized rays, and everything
  after it.
\<close>

definition render_and_refine ::
  "modules \<Rightarrow> nat \<Rightarrow> nat \<Rightarrow> int \<Rightarrow> tensor \<Rightarrow> tensor \<Rightarrow> tensor \<Rightarrow> tensor option \<Rightarrow> tensor option
     \<Rightarrow> pydict \<Rightarrow> pydict comp" where
  "render_and_refine self H W generator_level rays_o4 rays_d4 light_positions bg_color gt_rgb
     kwargs =
     andThen (call_base_renderer self rays_o4 rays_d4 light_positions bg_color kwargs) (\<lambda>out0.
     andThen (ret (out0(''comp_gt_rgb'' \<mapsto> py_of_gt gt_rgb))) (\<lambda>out1.
     andThen (lift (lookup_tensor out1 ''comp_rgb'')) (\<lambda>comp.
     andThen (lift (slice_last_to 3 comp)) (\<lambda>comp_rgb.
     andThen (lift (lookup_tensor out1 ''comp_rgb'')) (\<lambda>comp'.
     andThen (lift (slice_last_from 3 comp')) (\<lambda>latent.
     andThen (clone comp_rgb) (\<lambda>comp_lr.
     andThen (ret (out1(''comp_lr_rgb'' \<mapsto> PyTensor comp_lr))) (\<lambda>out2.
     andThen (lift (permute [0, 3, 1, 2] latent)) (\<lambda>latent_p.
     andThen (DiagonalGaussianDistribution self latent_p) (\<lambda>posterior.
     andThen (sample self posterior) (\<lambda>z_map.
     andThen (lift (permute [0, 3, 1, 2] comp_rgb)) (\<lambda>comp_rgb_p.
     andThen (ret (detach comp_rgb_p)) (\<lambda>lr_rgb.
     andThen (guidance_branch self generator_level gt_rgb lr_rgb z_map posterior)
       (\<lambda>(posterior', comp_gan_rgb).
     andThen (lift (permute [0, 3, 1, 2] comp_rgb)) (\<lambda>comp_rgb_p2.
     andThen (interpolate comp_rgb_p2 (H, W) Bilinear) (\<lambda>comp_rgb_up.
     andThen (lift (permute [0, 2, 3, 1] comp_gan_rgb)) (\<lambda>gan_out.
     andThen (lift (permute [0, 2, 3, 1] comp_rgb_up)) (\<lambda>rgb_out.
     ret (out2(''posterior'' \<mapsto> PyDist posterior',
               ''comp_gan_rgb'' \<mapsto> PyTensor gan_out,
               ''comp_rgb'' \<mapsto> PyTensor rgb_out,
               ''generator_level'' \<mapsto> PyInt generator_level))))))))))))))))))))"

text \<open>
  The method, lines 55 to 111: the shape of the rays, the guidance level, the two resizes
  of lines 73 to 76, and the rest.
\<close>

definition forward ::
  "modules \<Rightarrow> tensor \<Rightarrow> tensor \<Rightarrow> tensor \<Rightarrow> tensor option \<Rightarrow> tensor option \<Rightarrow> bool \<Rightarrow> pydict
     \<Rightarrow> pydict comp" where
  "forward self rays_o rays_d light_positions bg_color gt_rgb multi_level_guidance kwargs =
     andThen (lift (unpack_shape4 rays_o)) (\<lambda>(B, H, W, C).
     andThen (choose_generator_level gt_rgb multi_level_guidance) (\<lambda>generator_level.
     andThen (downsample_rays H W rays_o) (\<lambda>rays_o4.
     andThen (downsample_rays H W rays_d) (\<lambda>rays_d4.
     render_and_refine self H W generator_level rays_o4 rays_d4 light_positions bg_color
       gt_rgb kwargs))))"

subsection \<open>update_step, train and eval\<close>

text \<open>
  The renderer object: the base renderer it wraps, and everything else it holds (the
  generator, the encoders, the discriminator, the configuration, its own training flag).
\<close>

record ('r, 'o) renderer_obj =
  base_renderer_state :: 'r
  own_state :: 'o

text \<open>
  The three methods of the base renderer, which is defined in another file. The result
  of \<^verbatim>\<open>update_step\<close> is an optional value, \<^verbatim>\<open>None\<close> being the one its
  signature declares.
\<close>

record ('r, 'v) base_class =
  base_update_step :: "int \<Rightarrow> int \<Rightarrow> bool \<Rightarrow> 'r \<Rightarrow> error + ('v option \<times> 'r)"
  base_train :: "bool \<Rightarrow> 'r \<Rightarrow> error + ('v \<times> 'r)"
  base_eval :: "'r \<Rightarrow> error + ('v \<times> 'r)"

text \<open>Lines 113 to 116: the call is a statement, so the method returns \<^verbatim>\<open>None\<close>.\<close>

definition update_step ::
  "('r, 'v) base_class \<Rightarrow> int \<Rightarrow> int \<Rightarrow> bool \<Rightarrow> ('r, 'o) renderer_obj
     \<Rightarrow> error + ('v option \<times> ('r, 'o) renderer_obj)" where
  "update_step cls epoch global_step on_load_weights self =
     (case base_update_step cls epoch global_step on_load_weights (base_renderer_state self) of
        Inl e \<Rightarrow> Inl e
      | Inr (v, r) \<Rightarrow> Inr (None, self\<lparr>base_renderer_state := r\<rparr>))"

text \<open>Lines 118 and 119.\<close>

definition train ::
  "('r, 'v) base_class \<Rightarrow> bool \<Rightarrow> ('r, 'o) renderer_obj \<Rightarrow> error + ('v \<times> ('r, 'o) renderer_obj)" where
  "train cls mode self =
     (case base_train cls mode (base_renderer_state self) of
        Inl e \<Rightarrow> Inl e
      | Inr (v, r) \<Rightarrow> Inr (v, self\<lparr>base_renderer_state := r\<rparr>))"

text \<open>Lines 121 and 122.\<close>

definition eval ::
  "('r, 'v) base_class \<Rightarrow> ('r, 'o) renderer_obj \<Rightarrow> error + ('v \<times> ('r, 'o) renderer_obj)" where
  "eval cls self =
     (case base_eval cls (base_renderer_state self) of
        Inl e \<Rightarrow> Inl e
      | Inr (v, r) \<Rightarrow> Inr (v, self\<lparr>base_renderer_state := r\<rparr>))"

text \<open>
  What the specification asks of the three methods: the outcome of the method of the
  base renderer, on the base renderer held by the object, with nothing else changed.
\<close>

definition delegated ::
  "error + ('a \<times> 'r) \<Rightarrow> ('r, 'o) renderer_obj \<Rightarrow> error + ('a \<times> ('r, 'o) renderer_obj)" where
  "delegated outcome self =
     (case outcome of
        Inl e \<Rightarrow> Inl e
      | Inr (v, r) \<Rightarrow> Inr (v, \<lparr>base_renderer_state = r, own_state = own_state self\<rparr>))"

definition returns_none :: "('r, 'v) base_class \<Rightarrow> bool" where
  "returns_none cls \<longleftrightarrow>
     (\<forall>epoch global_step on_load_weights r v r'.
        base_update_step cls epoch global_step on_load_weights r = Inr (v, r') \<longrightarrow> v = None)"

subsection \<open>Observing a call\<close>

text \<open>The calls made between two states.\<close>

definition new_calls :: "state \<Rightarrow> state \<Rightarrow> event list" where
  "new_calls s s' = drop (length (trace s)) (trace s')"

text \<open>The calls that make, sample and consume latent maps.\<close>

definition latent_calls :: "event list \<Rightarrow> event list" where
  "latent_calls evs =
     filter (\<lambda>e. is_new_dist e \<or> is_sample e \<or> is_local_encoder e \<or> is_cat e \<or> is_generator e) evs"

text \<open>The samples drawn from one distribution object.\<close>

fun samples_of :: "dist \<Rightarrow> event list \<Rightarrow> tensor list" where
  "samples_of d [] = []"
| "samples_of d (EvSample d' z # es) =
     (if dist_id d' = dist_id d then z # samples_of d es else samples_of d es)"
| "samples_of d (_ # es) = samples_of d es"

text \<open>What the base renderer returned under a key, as the calls recorded it.\<close>

fun base_value :: "event list \<Rightarrow> string \<Rightarrow> pyval option" where
  "base_value [] k = None"
| "base_value (EvBaseRenderer ro rd lp bg kw out # es) k = out k"
| "base_value (_ # es) k = base_value es k"

text \<open>The rays that the base renderer was given, as the calls recorded them.\<close>

fun rays_forwarded :: "event list \<Rightarrow> (tensor \<times> tensor) list" where
  "rays_forwarded [] = []"
| "rays_forwarded (EvBaseRenderer ro rd lp bg kw out # es) = (ro, rd) # rays_forwarded es"
| "rays_forwarded (_ # es) = rays_forwarded es"

definition returns :: "error + 'a \<Rightarrow> bool" where
  "returns r = (case r of Inl _ \<Rightarrow> False | Inr _ \<Rightarrow> True)"

definition returned :: "error + (pydict \<times> state) \<Rightarrow> string \<Rightarrow> pyval option" where
  "returned r k = (case r of Inl _ \<Rightarrow> None | Inr (out, _) \<Rightarrow> out k)"

definition calls_of :: "error + (pydict \<times> state) \<Rightarrow> event list" where
  "calls_of r = (case r of Inl _ \<Rightarrow> [] | Inr (_, s') \<Rightarrow> trace s')"

text \<open>The shape of a value of the dictionary, when it is a tensor.\<close>

definition shape_of :: "pyval option \<Rightarrow> nat list option" where
  "shape_of v = (case v of Some (PyTensor t) \<Rightarrow> Some (shape t) | _ \<Rightarrow> None)"

definition storage_of :: "pyval option \<Rightarrow> addr option" where
  "storage_of v = (case v of Some (PyTensor t) \<Rightarrow> Some (storage t) | _ \<Rightarrow> None)"

text \<open>
  Modelled from the spec: the base volumetric renderer, which is not in this file,
  ``returns a composite tensor whose first 3 channels are RGB and remaining channels are
  an auxiliary latent map'', a ``per-pixel channel vector of length 3+L'', for every pixel
  of the rays it was given.
\<close>

definition base_renderer_contract :: "modules \<Rightarrow> bool" where
  "base_renderer_contract self \<longleftrightarrow>
     (\<forall>ro rd lp bg kw m out m'.
        base_renderer self ro rd lp bg kw m = Inr (out, m') \<longrightarrow>
        (\<exists>n h w c comp L. shape ro = [n, h, w, c] \<and> out ''comp_rgb'' = Some (PyTensor comp)
           \<and> shape comp = [n, h, w, 3 + L]))"

text \<open>
  The discipline of allocation that the wrapped networks are taken to follow: none of them
  gives buffers back, and the tensor a network returns lives in the buffer of one of its
  arguments or in a buffer that was free when it was called.
\<close>

definition keeps_allocation :: "modules \<Rightarrow> bool" where
  "keeps_allocation self \<longleftrightarrow>
     (\<forall>x m y m'. global_encoder self x m = Inr (y, m') \<longrightarrow>
        next_addr m \<le> next_addr m' \<and> (storage y = storage x \<or> next_addr m \<le> storage y))
   \<and> (\<forall>x m y m'. local_encoder self x m = Inr (y, m') \<longrightarrow> next_addr m \<le> next_addr m')
   \<and> (\<forall>x g m y m'. generator self x g m = Inr (y, m') \<longrightarrow>
        storage y = storage x \<or> storage y = storage g \<or> next_addr m \<le> storage y)
   \<and> (\<forall>p m m'. dist_init self p m = Inr m' \<longrightarrow> next_addr m \<le> next_addr m')
   \<and> (\<forall>p m z m'. dist_sample self p m = Inr (z, m') \<longrightarrow> next_addr m \<le> next_addr m')"

text \<open>
  The contents of the buffers. Mutating a tensor in place writes into its buffer, and what
  a tensor shows is read from its buffer.
\<close>

type_synonym 'b heap = "addr \<Rightarrow> 'b"

definition mutate :: "tensor \<Rightarrow> 'b \<Rightarrow> 'b heap \<Rightarrow> 'b heap" where
  "mutate t b h = h(storage t := b)"

definition observe :: "tensor \<Rightarrow> 'b heap \<Rightarrow> 'b" where
  "observe t h = h (storage t)"

subsection \<open>Stand-ins for the wrapped modules\<close>

text \<open>
  Small modules with the interfaces of the wrapped ones, on which the method can be run:
  a base renderer that returns a composite of 3 + 8 channels and an opacity, encoders and
  a generator that return new tensors, and a distribution whose sample has half the
  channels of its parameters.
\<close>

definition demo_base_renderer ::
  "tensor \<Rightarrow> tensor \<Rightarrow> tensor \<Rightarrow> tensor option \<Rightarrow> pydict \<Rightarrow> machine \<Rightarrow> error + (pydict \<times> machine)" where
  "demo_base_renderer ro rd lp bg kwargs m =
     (case shape ro of
        [b, h, w, c] \<Rightarrow>
          Inr ([''comp_rgb'' \<mapsto> PyTensor (Tensor (next_addr m) [] [b, h, w, 3 + 8]),
                ''opacity'' \<mapsto> PyTensor (Tensor (Suc (next_addr m)) [] [b, h, w, 1])],
               m\<lparr>next_addr := next_addr m + 2\<rparr>)
      | _ \<Rightarrow> Inl (Raised ''rays''))"

definition demo_encoder :: "nat \<Rightarrow> nat \<Rightarrow> tensor \<Rightarrow> machine \<Rightarrow> error + (tensor \<times> machine)" where
  "demo_encoder ch k x m =
     (case shape x of
        [b, c, h, w] \<Rightarrow>
          Inr (Tensor (next_addr m) [] [b, ch, h div k, w div k],
               m\<lparr>next_addr := Suc (next_addr m)\<rparr>)
      | _ \<Rightarrow> Inl (Raised ''image''))"

definition demo_generator :: "tensor \<Rightarrow> tensor \<Rightarrow> machine \<Rightarrow> error + (tensor \<times> machine)" where
  "demo_generator x g m =
     (case shape x of
        [b, c, h, w] \<Rightarrow>
          Inr (Tensor (next_addr m) [] [b, 3, 4 * h, 4 * w], m\<lparr>next_addr := Suc (next_addr m)\<rparr>)
      | _ \<Rightarrow> Inl (Raised ''image''))"

definition demo_sample :: "tensor \<Rightarrow> machine \<Rightarrow> error + (tensor \<times> machine)" where
  "demo_sample p m =
     (case shape p of
        [b, c, h, w] \<Rightarrow>
          Inr (Tensor (next_addr m) [] [b, c div 2, h, w],
               m\<lparr>rng := stl (rng m), next_addr := Suc (next_addr m)\<rparr>)
      | _ \<Rightarrow> Inl (Raised ''parameters''))"

definition demo_mode :: "tensor \<Rightarrow> machine \<Rightarrow> error + (tensor \<times> machine)" where
  "demo_mode p m =
     (case shape p of
        [b, c, h, w] \<Rightarrow> Inr (Tensor (storage p) (view p) [b, c div 2, h, w], m)
      | _ \<Rightarrow> Inl (Raised ''parameters''))"

definition demo_modules :: modules where
  "demo_modules =
     \<lparr>base_renderer = demo_base_renderer,
      global_encoder = demo_encoder 64 224,
      local_encoder = demo_encoder 8 4,
      generator = demo_generator,
      dist_init = (\<lambda>p m. Inr m),
      dist_sample = demo_sample,
      dist_mode = demo_mode\<rparr>"

text \<open>
  A state in which the next raw number of the generator is \<^verbatim>\<open>r\<close> and the buffers
  0 to 3 are taken: by the two ray tensors, the light positions and the ground truth.
\<close>

definition demo_state :: "nat \<Rightarrow> state" where
  "demo_state r = \<lparr>mach = \<lparr>rng = sconst r, next_addr = 4\<rparr>, next_obj = 0, trace = []\<rparr>"

definition demo_image :: "addr \<Rightarrow> nat \<Rightarrow> nat \<Rightarrow> tensor" where
  "demo_image a h w = Tensor a [] [1, h, w, 3]"

definition demo_lights :: tensor where
  "demo_lights = Tensor 2 [] [1, 3]"

text \<open>The call \<^verbatim>\<open>forward(rays_o, rays_d, light_positions, None, gt_rgb, flag)\<close> on them.\<close>

definition demo_forward :: "nat \<Rightarrow> nat \<Rightarrow> tensor option \<Rightarrow> bool \<Rightarrow> nat \<Rightarrow> error + (pydict \<times> state)" where
  "demo_forward h w gt_rgb multi_level_guidance r =
     forward demo_modules (demo_image 0 h w) (demo_image 1 h w) demo_lights None gt_rgb
       multi_level_guidance Map.empty (demo_state r)"

text \<open>A base renderer with a counter of steps and a training flag, for the three methods.\<close>

definition demo_base_class :: "(nat \<times> bool, string) base_class" where
  "demo_base_class =
     \<lparr>base_update_step = (\<lambda>epoch global_step on_load_weights (n, t). Inr (None, (Suc n, t))),
      base_train = (\<lambda>mode (n, t). Inr (''base'', (n, mode))),
      base_eval = (\<lambda>(n, t). Inr (''base'', (n, False)))\<rparr>"

definition demo_obj :: "(nat \<times> bool, bool) renderer_obj" where
  "demo_obj = \<lparr>base_renderer_state = (0, True), own_state = True\<rparr>"

section \<open>Properties\<close>

subsection \<open>Running the method step by step\<close>

lemma ret_Inr [simp]: "ret x s = Inr r \<longleftrightarrow> r = (x, s)"
  by (auto simp: ret_def)

lemma andThen_Inr: "andThen m f s = Inr r \<longleftrightarrow> (\<exists>x s1. m s = Inr (x, s1) \<and> f x s1 = Inr r)"
  by (auto simp: andThen_def split: sum.splits)

lemma lift_Inr: "lift r s = Inr p \<longleftrightarrow> (\<exists>x. r = Inr x \<and> p = (x, s))"
  by (auto simp: lift_def split: sum.splits)

lemma permute_Inr:
  "permute dims t = Inr y \<Longrightarrow>
     storage y = storage t \<and> shape y = map (\<lambda>d. shape t ! d) dims \<and> view y = view t @ [Permute dims]"
  by (auto simp: permute_def split: if_splits option.splits)

lemma alloc_eq:
  "alloc shp s = (y, s') \<Longrightarrow>
     y = Tensor (next_addr (mach s)) [] shp \<and> trace s' = trace s \<and> next_obj s' = next_obj s
     \<and> next_addr (mach s') = Suc (next_addr (mach s)) \<and> rng (mach s') = rng (mach s)"
  by (auto simp: alloc_def)

lemma clone_Inr:
  "clone t s = Inr (y, s') \<Longrightarrow>
     y = Tensor (next_addr (mach s)) [] (shape t) \<and> trace s' = trace s @ [EvClone t y]
     \<and> next_obj s' = next_obj s \<and> next_addr (mach s') = Suc (next_addr (mach s))
     \<and> rng (mach s') = rng (mach s)"
  by (auto simp: clone_def alloc_def record_call_def)

lemma interpolate_Inr:
  "interpolate x sz mode s = Inr (y, s') \<Longrightarrow>
     (\<exists>n c h w. shape x = [n, c, h, w] \<and> 0 < c \<and> 0 < h \<and> 0 < w \<and> 0 < fst sz \<and> 0 < snd sz
        \<and> y = Tensor (next_addr (mach s)) [] [n, c, fst sz, snd sz])
     \<and> trace s' = trace s @ [EvInterpolate x sz mode y]
     \<and> next_obj s' = next_obj s \<and> next_addr (mach s') = Suc (next_addr (mach s))
     \<and> rng (mach s') = rng (mach s)"
  by (auto simp: interpolate_def alloc_def record_call_def split: list.splits if_splits)

lemma cat_dim1_Inr:
  "cat_dim1 a b s = Inr (y, s') \<Longrightarrow>
     storage y = next_addr (mach s) \<and> trace s' = trace s @ [EvCat a b y]
     \<and> next_obj s' = next_obj s \<and> next_addr (mach s') = Suc (next_addr (mach s))"
  by (auto simp: cat_dim1_def alloc_def record_call_def Let_def split: if_splits)

lemma randint_Inr:
  "randint low high s = Inr (r, s') \<Longrightarrow>
     low < high \<and> r = low + int (shd (rng (mach s))) mod (high - low)
     \<and> trace s' = trace s @ [EvRandint low high r] \<and> next_obj s' = next_obj s
     \<and> next_addr (mach s') = next_addr (mach s) \<and> rng (mach s') = stl (rng (mach s))"
  by (auto simp: randint_def record_call_def Let_def split: if_splits)

lemma call_base_renderer_Inr:
  "call_base_renderer self ro rd lp bg kw s = Inr (out, s') \<Longrightarrow>
     base_renderer self ro rd lp bg kw (mach s) = Inr (out, mach s')
     \<and> trace s' = trace s @ [EvBaseRenderer ro rd lp bg kw out] \<and> next_obj s' = next_obj s"
  by (auto simp: call_base_renderer_def record_call_def split: sum.splits)

lemma call_global_encoder_Inr:
  "call_global_encoder self x s = Inr (y, s') \<Longrightarrow>
     global_encoder self x (mach s) = Inr (y, mach s')
     \<and> trace s' = trace s @ [EvGlobalEncoder x y] \<and> next_obj s' = next_obj s"
  by (auto simp: call_global_encoder_def record_call_def split: sum.splits)

lemma call_local_encoder_Inr:
  "call_local_encoder self x s = Inr (y, s') \<Longrightarrow>
     local_encoder self x (mach s) = Inr (y, mach s')
     \<and> trace s' = trace s @ [EvLocalEncoder x y] \<and> next_obj s' = next_obj s"
  by (auto simp: call_local_encoder_def record_call_def split: sum.splits)

lemma call_generator_Inr:
  "call_generator self x g s = Inr (y, s') \<Longrightarrow>
     generator self x g (mach s) = Inr (y, mach s')
     \<and> trace s' = trace s @ [EvGenerator x g y] \<and> next_obj s' = next_obj s"
  by (auto simp: call_generator_def record_call_def split: sum.splits)

lemma DiagonalGaussianDistribution_Inr:
  "DiagonalGaussianDistribution self p s = Inr (d, s') \<Longrightarrow>
     dist_init self p (mach s) = Inr (mach s') \<and> d = Dist (next_obj s) p
     \<and> trace s' = trace s @ [EvNewDist p d] \<and> next_obj s' = Suc (next_obj s)"
  by (auto simp: DiagonalGaussianDistribution_def record_call_def Let_def split: sum.splits)

lemma sample_Inr:
  "sample self d s = Inr (z, s') \<Longrightarrow>
     dist_sample self (parameters d) (mach s) = Inr (z, mach s')
     \<and> trace s' = trace s @ [EvSample d z] \<and> next_obj s' = next_obj s"
  by (auto simp: sample_def record_call_def split: sum.splits)

lemma choose_generator_level_Inr:
  "choose_generator_level gt mlg s = Inr (lvl, s') \<Longrightarrow>
     next_obj s' = next_obj s \<and> next_addr (mach s') = next_addr (mach s) \<and>
     (if gt \<noteq> None \<and> mlg
      then lvl = int (shd (rng (mach s)) mod 3) \<and> trace s' = trace s @ [EvRandint 0 3 lvl]
           \<and> rng (mach s') = stl (rng (mach s))
      else lvl = 0 \<and> s' = s)"
  by (auto simp: choose_generator_level_def dest!: randint_Inr simp: zmod_int)

lemma downsample_rays_Inr:
  "downsample_rays H W rays s = Inr (rays4, s') \<Longrightarrow>
     (\<exists>rays_p rays_i.
        permute [0, 3, 1, 2] rays = Inr rays_p
        \<and> interpolate rays_p (H div 4, W div 4) Bilinear s = Inr (rays_i, s')
        \<and> permute [0, 2, 3, 1] rays_i = Inr rays4)"
  by (auto simp: downsample_rays_def andThen_Inr lift_Inr)

lemma detach_id [simp]: "detach t = t"
  by (simp add: detach_def)

lemma lookup_tensor_Inr: "lookup_tensor out k = Inr t \<longleftrightarrow> out k = Some (PyTensor t)"
  by (auto simp: lookup_tensor_def split: option.splits pyval.splits)

lemma permute_gt_Inr:
  "permute_gt gt = Inr y \<longleftrightarrow> (\<exists>t. gt = Some t \<and> permute [0, 3, 1, 2] t = Inr y)"
  by (auto simp: permute_gt_def split: option.splits)

lemma forward_cases:
  assumes "forward self ro rd lp bg gt mlg kw s = Inr (out, s')"
  obtains B H W C lvl s1 ro4 s2 rd4 s3 out0 s4 comp comp_rgb latent comp_lr s5 latent_p d1 s6
    z1 s7 lr post gan s8 up gan_out rgb_out
  where "unpack_shape4 ro = Inr (B, H, W, C)"
    and "choose_generator_level gt mlg s = Inr (lvl, s1)"
    and "downsample_rays H W ro s1 = Inr (ro4, s2)"
    and "downsample_rays H W rd s2 = Inr (rd4, s3)"
    and "call_base_renderer self ro4 rd4 lp bg kw s3 = Inr (out0, s4)"
    and "out0 ''comp_rgb'' = Some (PyTensor comp)"
    and "slice_last_to 3 comp = Inr comp_rgb"
    and "slice_last_from 3 comp = Inr latent"
    and "clone comp_rgb s4 = Inr (comp_lr, s5)"
    and "permute [0, 3, 1, 2] latent = Inr latent_p"
    and "DiagonalGaussianDistribution self latent_p s5 = Inr (d1, s6)"
    and "sample self d1 s6 = Inr (z1, s7)"
    and "permute [0, 3, 1, 2] comp_rgb = Inr lr"
    and "guidance_branch self lvl gt lr z1 d1 s7 = Inr ((post, gan), s8)"
    and "interpolate lr (H, W) Bilinear s8 = Inr (up, s')"
    and "permute [0, 2, 3, 1] gan = Inr gan_out"
    and "permute [0, 2, 3, 1] up = Inr rgb_out"
    and "out = out0(''comp_gt_rgb'' \<mapsto> py_of_gt gt, ''comp_lr_rgb'' \<mapsto> PyTensor comp_lr,
                   ''posterior'' \<mapsto> PyDist post, ''comp_gan_rgb'' \<mapsto> PyTensor gan_out,
                   ''comp_rgb'' \<mapsto> PyTensor rgb_out, ''generator_level'' \<mapsto> PyInt lvl)"
  using assms
  by (auto simp: forward_def render_and_refine_def andThen_Inr lift_Inr lookup_tensor_Inr
      split: prod.splits)


lemma guidance_branch_cases:
  assumes "guidance_branch self lvl gt lr z d s = Inr ((post, gan), s')"
  obtains
    (level0) i s1 g s2 x s3
      where "lvl = 0" and "post = d"
        and "interpolate lr (224, 224) Nearest s = Inr (i, s1)"
        and "call_global_encoder self i s1 = Inr (g, s2)"
        and "cat_dim1 lr z s2 = Inr (x, s3)"
        and "call_generator self x g s3 = Inr (gan, s')"
  | (level1) gt_t gt_p i s1 g s2 x s3
      where "lvl = 1" and "post = d"
        and "gt = Some gt_t" and "permute [0, 3, 1, 2] gt_t = Inr gt_p"
        and "interpolate gt_p (224, 224) Nearest s = Inr (i, s1)"
        and "call_global_encoder self i s1 = Inr (g, s2)"
        and "cat_dim1 lr z s2 = Inr (x, s3)"
        and "call_generator self x g s3 = Inr (gan, s')"
  | (level2) gt_t gt_p i s1 g s2 l s3 s4 z2 s5 x s6
      where "lvl = 2"
        and "gt = Some gt_t" and "permute [0, 3, 1, 2] gt_t = Inr gt_p"
        and "interpolate gt_p (224, 224) Nearest s = Inr (i, s1)"
        and "call_global_encoder self i s1 = Inr (g, s2)"
        and "call_local_encoder self gt_p s2 = Inr (l, s3)"
        and "DiagonalGaussianDistribution self l s3 = Inr (post, s4)"
        and "sample self post s4 = Inr (z2, s5)"
        and "cat_dim1 lr z2 s5 = Inr (x, s6)"
        and "call_generator self x g s6 = Inr (gan, s')"
proof -
  consider "lvl = 0" | "lvl = 1" | "lvl = 2" | "lvl \<noteq> 0 \<and> lvl \<noteq> 1 \<and> lvl \<noteq> 2"
    by auto
  then show thesis
  proof cases
    case 1
    with assms level0 show thesis
      by (auto simp: guidance_branch_def andThen_Inr)
  next
    case 2
    with assms level1 show thesis
      by (auto simp: guidance_branch_def andThen_Inr lift_Inr permute_gt_Inr)
  next
    case 3
    with assms level2 show thesis
      by (auto simp: guidance_branch_def andThen_Inr lift_Inr permute_gt_Inr)
  next
    case 4
    with assms show thesis
      by (simp add: guidance_branch_def lift_def)
  qed
qed

text \<open>The calls of the branch, in order.\<close>

lemma guidance_branch_trace:
  assumes "guidance_branch self lvl gt lr z d s = Inr ((post, gan), s')"
  shows "(lvl = 0 \<and> post = d \<and> next_obj s' = next_obj s \<and>
            (\<exists>i g x. trace s' = trace s @
               [EvInterpolate lr (224, 224) Nearest i, EvGlobalEncoder i g,
                EvCat lr z x, EvGenerator x g gan]))
       \<or> (lvl = 1 \<and> post = d \<and> next_obj s' = next_obj s \<and>
            (\<exists>gt_t gt_p i g x. gt = Some gt_t \<and> permute [0, 3, 1, 2] gt_t = Inr gt_p \<and>
               trace s' = trace s @
               [EvInterpolate gt_p (224, 224) Nearest i, EvGlobalEncoder i g,
                EvCat lr z x, EvGenerator x g gan]))
       \<or> (lvl = 2 \<and> next_obj s' = Suc (next_obj s) \<and>
            (\<exists>gt_t gt_p i g l z2 x. gt = Some gt_t \<and> permute [0, 3, 1, 2] gt_t = Inr gt_p \<and>
               post = Dist (next_obj s) l \<and>
               trace s' = trace s @
               [EvInterpolate gt_p (224, 224) Nearest i, EvGlobalEncoder i g,
                EvLocalEncoder gt_p l, EvNewDist l post, EvSample post z2,
                EvCat lr z2 x, EvGenerator x g gan]))"
  using assms
proof (cases rule: guidance_branch_cases)
  case (level0 i s1 g s2 x s3)
  from interpolate_Inr [OF level0(3)] call_global_encoder_Inr [OF level0(4)]
    cat_dim1_Inr [OF level0(5)] call_generator_Inr [OF level0(6)] level0(1,2)
  show ?thesis by simp
next
  case (level1 gt_t gt_p i s1 g s2 x s3)
  from interpolate_Inr [OF level1(5)] call_global_encoder_Inr [OF level1(6)]
    cat_dim1_Inr [OF level1(7)] call_generator_Inr [OF level1(8)] level1(1-4)
  show ?thesis by simp
next
  case (level2 gt_t gt_p i s1 g s2 l s3 s4 z2 s5 x s6)
  from interpolate_Inr [OF level2(4)] call_global_encoder_Inr [OF level2(5)]
    call_local_encoder_Inr [OF level2(6)] DiagonalGaussianDistribution_Inr [OF level2(7)]
    sample_Inr [OF level2(8)] cat_dim1_Inr [OF level2(9)] call_generator_Inr [OF level2(10)]
    level2(1-3)
  show ?thesis by simp
qed

lemma length4E:
  assumes "length xs = 4"
  obtains a b c d where "xs = [a, b, c, d]"
  using assms by (auto simp: numeral_eq_Suc length_Suc_conv)

lemma permute_nchw:
  assumes "permute [0, 3, 1, 2] t = Inr y"
  obtains n h w c where "shape t = [n, h, w, c]" and "shape y = [n, c, h, w]"
    and "storage y = storage t"
proof -
  from assms have "length (shape t) = 4"
    by (auto simp: permute_def split: if_splits)
  then obtain n h w c where "shape t = [n, h, w, c]" by (rule length4E)
  with permute_Inr [OF assms] that show thesis by simp
qed

lemma permute_nhwc:
  assumes "permute [0, 2, 3, 1] t = Inr y"
  obtains n c h w where "shape t = [n, c, h, w]" and "shape y = [n, h, w, c]"
    and "storage y = storage t"
proof -
  from assms have "length (shape t) = 4"
    by (auto simp: permute_def split: if_splits)
  then obtain n c h w where "shape t = [n, c, h, w]" by (rule length4E)
  with permute_Inr [OF assms] that show thesis by simp
qed

lemma downsample_rays_run:
  assumes "downsample_rays H W rays s = Inr (rays4, s')"
  obtains n h w c rays_p rays_i
  where "shape rays = [n, h, w, c]"
    and "permute [0, 3, 1, 2] rays = Inr rays_p"
    and "rays_i = Tensor (next_addr (mach s)) [] [n, c, H div 4, W div 4]"
    and "permute [0, 2, 3, 1] rays_i = Inr rays4"
    and "shape rays4 = [n, H div 4, W div 4, c]"
    and "storage rays4 = next_addr (mach s)"
    and "0 < H div 4" and "0 < W div 4"
    and "trace s' = trace s @ [EvInterpolate rays_p (H div 4, W div 4) Bilinear rays_i]"
    and "next_obj s' = next_obj s"
    and "next_addr (mach s') = Suc (next_addr (mach s))"
    and "rng (mach s') = rng (mach s)"
proof -
  from downsample_rays_Inr [OF assms] obtain rays_p rays_i
    where p: "permute [0, 3, 1, 2] rays = Inr rays_p"
      and i: "interpolate rays_p (H div 4, W div 4) Bilinear s = Inr (rays_i, s')"
      and q: "permute [0, 2, 3, 1] rays_i = Inr rays4"
    by blast
  from p obtain n h w c where sh: "shape rays = [n, h, w, c]" "shape rays_p = [n, c, h, w]"
    by (rule permute_nchw)
  from interpolate_Inr [OF i] sh
  have ri: "rays_i = Tensor (next_addr (mach s)) [] [n, c, H div 4, W div 4]"
    and pos: "0 < H div 4" "0 < W div 4"
    and rest: "trace s' = trace s @ [EvInterpolate rays_p (H div 4, W div 4) Bilinear rays_i]"
      "next_obj s' = next_obj s" "next_addr (mach s') = Suc (next_addr (mach s))"
      "rng (mach s') = rng (mach s)"
    by auto
  from permute_Inr [OF q] ri
  have "shape rays4 = [n, H div 4, W div 4, c]" "storage rays4 = next_addr (mach s)"
    by simp_all
  with sh p ri q pos rest that show thesis by blast
qed

lemma forward_run:
  assumes "forward self ro rd lp bg gt mlg kw s = Inr (out, s')"
  obtains B H W C lvl pre ro_p ro_i ro4 rd_p rd_i rd4 out0 comp comp_rgb latent comp_lr
    latent_p d1 z1 lr post gan branch up gan_out rgb_out
  where "shape ro = [B, H, W, C]"
    and "if gt \<noteq> None \<and> mlg
         then lvl = int (shd (rng (mach s)) mod 3) \<and> pre = [EvRandint 0 3 lvl]
         else lvl = 0 \<and> pre = []"
    and "permute [0, 3, 1, 2] ro = Inr ro_p"
    and "shape ro_i = [B, C, H div 4, W div 4]"
    and "permute [0, 2, 3, 1] ro_i = Inr ro4"
    and "shape ro4 = [B, H div 4, W div 4, C]"
    and "permute [0, 3, 1, 2] rd = Inr rd_p"
    and "permute [0, 2, 3, 1] rd_i = Inr rd4"
    and "\<exists>n h w c. shape rd = [n, h, w, c] \<and> shape rd4 = [n, H div 4, W div 4, c]"
    and "0 < H div 4" and "0 < W div 4"
    and "out0 ''comp_rgb'' = Some (PyTensor comp)"
    and "slice_last_to 3 comp = Inr comp_rgb"
    and "slice_last_from 3 comp = Inr latent"
    and "view comp_lr = []" and "shape comp_lr = shape comp_rgb"
    and "permute [0, 3, 1, 2] latent = Inr latent_p"
    and "d1 = Dist (next_obj s) latent_p"
    and "permute [0, 3, 1, 2] comp_rgb = Inr lr"
    and "(lvl = 0 \<and> post = d1 \<and>
            (\<exists>i g x. branch =
               [EvInterpolate lr (224, 224) Nearest i, EvGlobalEncoder i g,
                EvCat lr z1 x, EvGenerator x g gan]))
       \<or> (lvl = 1 \<and> post = d1 \<and>
            (\<exists>gt_t gt_p i g x. gt = Some gt_t \<and> permute [0, 3, 1, 2] gt_t = Inr gt_p \<and>
               branch =
               [EvInterpolate gt_p (224, 224) Nearest i, EvGlobalEncoder i g,
                EvCat lr z1 x, EvGenerator x g gan]))
       \<or> (lvl = 2 \<and>
            (\<exists>gt_t gt_p i g l z2 x. gt = Some gt_t \<and> permute [0, 3, 1, 2] gt_t = Inr gt_p \<and>
               post = Dist (Suc (next_obj s)) l \<and>
               branch =
               [EvInterpolate gt_p (224, 224) Nearest i, EvGlobalEncoder i g,
                EvLocalEncoder gt_p l, EvNewDist l post, EvSample post z2,
                EvCat lr z2 x, EvGenerator x g gan]))"
    and "\<exists>n c h w. shape lr = [n, c, h, w] \<and> shape up = [n, c, H, W]"
    and "permute [0, 2, 3, 1] gan = Inr gan_out"
    and "permute [0, 2, 3, 1] up = Inr rgb_out"
    and "out = out0(''comp_gt_rgb'' \<mapsto> py_of_gt gt, ''comp_lr_rgb'' \<mapsto> PyTensor comp_lr,
                   ''posterior'' \<mapsto> PyDist post, ''comp_gan_rgb'' \<mapsto> PyTensor gan_out,
                   ''comp_rgb'' \<mapsto> PyTensor rgb_out, ''generator_level'' \<mapsto> PyInt lvl)"
    and "trace s' = trace s @ pre @
           [EvInterpolate ro_p (H div 4, W div 4) Bilinear ro_i,
            EvInterpolate rd_p (H div 4, W div 4) Bilinear rd_i,
            EvBaseRenderer ro4 rd4 lp bg kw out0,
            EvClone comp_rgb comp_lr,
            EvNewDist latent_p d1,
            EvSample d1 z1] @ branch @ [EvInterpolate lr (H, W) Bilinear up]"
    and "\<exists>m m'. base_renderer self ro4 rd4 lp bg kw m = Inr (out0, m')"
    and "ro_i = Tensor (next_addr (mach s)) [] [B, C, H div 4, W div 4]"
    and "\<exists>n h w c. shape rd = [n, h, w, c]
           \<and> rd_i = Tensor (Suc (next_addr (mach s))) [] [n, c, H div 4, W div 4]"
  using assms
proof (cases rule: forward_cases)
  case (1 B H W C lvl s1 ro4 s2 rd4 s3 out0 s4 comp comp_rgb latent comp_lr s5 latent_p d1 s6
      z1 s7 lr post gan s8 up gan_out rgb_out)
  from 1(1) have sh: "shape ro = [B, H, W, C]"
    by (auto simp: unpack_shape4_def split: list.splits)
  define pre where "pre = (if gt \<noteq> None \<and> mlg then [EvRandint 0 3 lvl] else [])"
  from choose_generator_level_Inr [OF 1(2)]
  have lv: "if gt \<noteq> None \<and> mlg
         then lvl = int (shd (rng (mach s)) mod 3) \<and> pre = [EvRandint 0 3 lvl]
         else lvl = 0 \<and> pre = []"
    and t1: "trace s1 = trace s @ pre" and o1: "next_obj s1 = next_obj s"
    and n1: "next_addr (mach s1) = next_addr (mach s)"
    by (auto simp: pre_def split: if_splits)
  from 1(3) obtain n h w c ro_p ro_i
    where a: "shape ro = [n, h, w, c]" "permute [0, 3, 1, 2] ro = Inr ro_p"
      "ro_i = Tensor (next_addr (mach s1)) [] [n, c, H div 4, W div 4]"
      "permute [0, 2, 3, 1] ro_i = Inr ro4" "shape ro4 = [n, H div 4, W div 4, c]"
      "0 < H div 4" "0 < W div 4"
      "trace s2 = trace s1 @ [EvInterpolate ro_p (H div 4, W div 4) Bilinear ro_i]"
      "next_obj s2 = next_obj s1" "next_addr (mach s2) = Suc (next_addr (mach s1))"
    by (rule downsample_rays_run)
  from 1(4) obtain n' h' w' c' rd_p rd_i
    where b: "shape rd = [n', h', w', c']" "permute [0, 3, 1, 2] rd = Inr rd_p"
      "permute [0, 2, 3, 1] rd_i = Inr rd4" "shape rd4 = [n', H div 4, W div 4, c']"
      "trace s3 = trace s2 @ [EvInterpolate rd_p (H div 4, W div 4) Bilinear rd_i]"
      "next_obj s3 = next_obj s2"
      "rd_i = Tensor (next_addr (mach s2)) [] [n', c', H div 4, W div 4]"
    by (rule downsample_rays_run)
  from call_base_renderer_Inr [OF 1(5)]
  have c: "trace s4 = trace s3 @ [EvBaseRenderer ro4 rd4 lp bg kw out0]"
    "next_obj s4 = next_obj s3"
    and br: "\<exists>m m'. base_renderer self ro4 rd4 lp bg kw m = Inr (out0, m')"
    by auto
  from clone_Inr [OF 1(9)]
  have d: "view comp_lr = []" "shape comp_lr = shape comp_rgb"
    "trace s5 = trace s4 @ [EvClone comp_rgb comp_lr]" "next_obj s5 = next_obj s4"
    by simp_all
  from DiagonalGaussianDistribution_Inr [OF 1(11)]
  have e: "d1 = Dist (next_obj s5) latent_p" "trace s6 = trace s5 @ [EvNewDist latent_p d1]"
    "next_obj s6 = Suc (next_obj s5)" by simp_all
  from sample_Inr [OF 1(12)]
  have f: "trace s7 = trace s6 @ [EvSample d1 z1]" "next_obj s7 = next_obj s6" by simp_all
  define branch where "branch = drop (length (trace s7)) (trace s8)"
  have o7: "next_obj s7 = Suc (next_obj s)"
    using o1 a(9) b(6) c(2) d(4) e(3) f(2) by simp
  from guidance_branch_trace [OF 1(14)]
  have g: "(lvl = 0 \<and> post = d1 \<and>
            (\<exists>i g x. branch =
               [EvInterpolate lr (224, 224) Nearest i, EvGlobalEncoder i g,
                EvCat lr z1 x, EvGenerator x g gan]))
       \<or> (lvl = 1 \<and> post = d1 \<and>
            (\<exists>gt_t gt_p i g x. gt = Some gt_t \<and> permute [0, 3, 1, 2] gt_t = Inr gt_p \<and>
               branch =
               [EvInterpolate gt_p (224, 224) Nearest i, EvGlobalEncoder i g,
                EvCat lr z1 x, EvGenerator x g gan]))
       \<or> (lvl = 2 \<and>
            (\<exists>gt_t gt_p i g l z2 x. gt = Some gt_t \<and> permute [0, 3, 1, 2] gt_t = Inr gt_p \<and>
               post = Dist (Suc (next_obj s)) l \<and>
               branch =
               [EvInterpolate gt_p (224, 224) Nearest i, EvGlobalEncoder i g,
                EvLocalEncoder gt_p l, EvNewDist l post, EvSample post z2,
                EvCat lr z2 x, EvGenerator x g gan]))"
    and t8: "trace s8 = trace s7 @ branch"
    unfolding branch_def o7 [symmetric] by auto
  from interpolate_Inr [OF 1(15)]
  have h: "\<exists>n c h w. shape lr = [n, c, h, w] \<and> shape up = [n, c, H, W]"
    "trace s' = trace s8 @ [EvInterpolate lr (H, W) Bilinear up]"
    by auto
  have tr: "trace s' = trace s @ pre @
           [EvInterpolate ro_p (H div 4, W div 4) Bilinear ro_i,
            EvInterpolate rd_p (H div 4, W div 4) Bilinear rd_i,
            EvBaseRenderer ro4 rd4 lp bg kw out0,
            EvClone comp_rgb comp_lr,
            EvNewDist latent_p d1,
            EvSample d1 z1] @ branch @ [EvInterpolate lr (H, W) Bilinear up]"
    using t1 a(8) b(5) c(1) d(3) e(2) f(1) t8 h(2) by simp
  have e': "d1 = Dist (next_obj s) latent_p"
    using e(1) o1 a(9) b(6) c(2) d(4) by simp
  have a': "shape ro_i = [B, C, H div 4, W div 4]" "shape ro4 = [B, H div 4, W div 4, C]"
    using a(1,3,5) sh by simp_all
  have b': "\<exists>n h w c. shape rd = [n, h, w, c] \<and> shape rd4 = [n, H div 4, W div 4, c]"
    using b(1,4) by simp
  have a'': "ro_i = Tensor (next_addr (mach s)) [] [B, C, H div 4, W div 4]"
    using a(1,3) sh n1 by simp
  have b'': "\<exists>n h w c. shape rd = [n, h, w, c]
           \<and> rd_i = Tensor (Suc (next_addr (mach s))) [] [n, c, H div 4, W div 4]"
    using b(1,7) a(10) n1 by simp
  show thesis
    by (rule that [OF sh lv a(2) a'(1) a(4) a'(2) b(2) b(3) b' a(6) a(7) 1(6) 1(7) 1(8)
          d(1) d(2) 1(10) e' 1(13) g h(1) 1(16) 1(17) 1(18) tr br a'' b''])
qed

subsection \<open>Running the method on the stand-ins\<close>

lemmas demo_eval = demo_forward_def forward_def render_and_refine_def andThen_def lift_def ret_def unpack_shape4_def
  choose_generator_level_def randint_def downsample_rays_def permute_def interpolate_def
  alloc_def record_call_def call_base_renderer_def lookup_tensor_def slice_last_to_def
  slice_last_from_def clone_def DiagonalGaussianDistribution_def sample_def detach_def
  guidance_branch_def cat_dim1_def call_global_encoder_def call_local_encoder_def
  call_generator_def permute_gt_def py_of_gt_def demo_modules_def demo_base_renderer_def
  demo_encoder_def demo_generator_def demo_sample_def demo_state_def demo_image_def
  demo_lights_def Let_def

lemma returnsE:
  assumes "returns r"
  obtains x where "r = Inr x"
  using assms by (cases r) (simp_all add: returns_def)

lemma new_calls_append: "trace s' = trace s @ evs \<Longrightarrow> new_calls s s' = evs"
  by (simp add: new_calls_def)

subsection \<open>The guidance level\<close>

text \<open>
  Claim C1. When \<^verbatim>\<open>forward\<close> is called without a ground-truth image and returns,
  the dictionary it returns holds 0 under \<^verbatim>\<open>generator_level\<close>, whatever the flag
  \<^verbatim>\<open>multi_level_guidance\<close> is; and the choice of the level, which cannot fail, yields
  0 and leaves the state as it was.
\<close>

theorem C1_level_zero_without_ground_truth:
  assumes "forward self rays_o rays_d light_positions bg_color None multi_level_guidance kwargs s
             = Inr (out, s')"
  shows "out ''generator_level'' = Some (PyInt 0)
       \<and> choose_generator_level None multi_level_guidance s = Inr (0, s)"
  using assms
proof (cases rule: forward_run)
  case (1 B H W C lvl pre ro_p ro_i ro4 rd_p rd_i rd4 out0 comp comp_rgb latent comp_lr
      latent_p d1 z1 lr post gan branch up gan_out rgb_out)
  from 1(2) have "lvl = 0" by simp
  with 1(24) show ?thesis
    by (simp add: choose_generator_level_def)
qed

theorem C1_witness:
  "returns (demo_forward 8 8 None True 2)
   \<and> returned (demo_forward 8 8 None True 2) ''generator_level'' = Some (PyInt 0)"
proof -
  have r: "returns (demo_forward 8 8 None True 2)"
    by (simp add: demo_eval returns_def)
  then obtain out s' where run: "demo_forward 8 8 None True 2 = Inr (out, s')"
    by (elim returnsE) (metis surj_pair)
  from C1_level_zero_without_ground_truth [OF run [unfolded demo_forward_def]]
  have "out ''generator_level'' = Some (PyInt 0)" by simp
  with r run show ?thesis by (simp add: returned_def)
qed

text \<open>
  Claim C3. When \<^verbatim>\<open>forward\<close> is called with a ground-truth image and with the flag
  set, and returns, the level it reports is the value of one call of
  \<^verbatim>\<open>torch.randint(0, 3, (1,))\<close>, which is the first call it makes and the only draw of
  an integer: the next raw number of the random generator at the time of the call, reduced
  to one of 0, 1 and 2. Nothing else of the state enters the choice. In every other case
  the level is 0 and no integer is drawn.
\<close>

theorem C3_level_is_one_draw:
  assumes "forward self rays_o rays_d light_positions bg_color gt_rgb multi_level_guidance kwargs s
             = Inr (out, s')"
  shows "(gt_rgb \<noteq> None \<and> multi_level_guidance \<longrightarrow>
            (\<exists>lvl. lvl = int (shd (rng (mach s)) mod 3) \<and> lvl \<in> {0, 1, 2}
               \<and> out ''generator_level'' = Some (PyInt lvl)
               \<and> filter is_randint (new_calls s s') = [EvRandint 0 3 lvl]
               \<and> hd (new_calls s s') = EvRandint 0 3 lvl))
       \<and> (\<not> (gt_rgb \<noteq> None \<and> multi_level_guidance) \<longrightarrow>
            out ''generator_level'' = Some (PyInt 0)
            \<and> filter is_randint (new_calls s s') = [])"
  using assms
proof (cases rule: forward_run)
  case (1 B H W C lvl pre ro_p ro_i ro4 rd_p rd_i rd4 out0 comp comp_rgb latent comp_lr
      latent_p d1 z1 lr post gan branch up gan_out rgb_out)
  have br: "filter is_randint branch = []"
    using 1(20) by auto
  have calls: "new_calls s s' = pre @
           [EvInterpolate ro_p (H div 4, W div 4) Bilinear ro_i,
            EvInterpolate rd_p (H div 4, W div 4) Bilinear rd_i,
            EvBaseRenderer ro4 rd4 light_positions bg_color kwargs out0,
            EvClone comp_rgb comp_lr,
            EvNewDist latent_p d1,
            EvSample d1 z1] @ branch @ [EvInterpolate lr (H, W) Bilinear up]"
    using 1(25) by (rule new_calls_append)
  have lv: "out ''generator_level'' = Some (PyInt lvl)"
    using 1(24) by simp
  show ?thesis
  proof (cases "gt_rgb \<noteq> None \<and> multi_level_guidance")
    case True
    with 1(2) have "lvl = int (shd (rng (mach s)) mod 3)" "pre = [EvRandint 0 3 lvl]"
      by simp_all
    moreover have "int (shd (rng (mach s)) mod 3) \<in> {0, 1, 2}"
      by (simp add: zmod_int) presburger
    ultimately show ?thesis
      using True lv calls br by simp
  next
    case False
    with 1(2) have "lvl = 0" "pre = []" by simp_all
    then show ?thesis
      using False lv calls br by simp
  qed
qed

theorem C3_witness:
  "returned (demo_forward 8 8 (Some (demo_image 3 8 8)) True 0) ''generator_level'' = Some (PyInt 0)
   \<and> returned (demo_forward 8 8 (Some (demo_image 3 8 8)) True 1) ''generator_level'' = Some (PyInt 1)
   \<and> returned (demo_forward 8 8 (Some (demo_image 3 8 8)) True 2) ''generator_level'' = Some (PyInt 2)
   \<and> filter is_randint (calls_of (demo_forward 8 8 (Some (demo_image 3 8 8)) True 2))
       = [EvRandint 0 3 2]
   \<and> filter is_randint (calls_of (demo_forward 8 8 (Some (demo_image 3 8 8)) False 2)) = []"
proof -
  have r: "returns (demo_forward 8 8 (Some (demo_image 3 8 8)) True 2)"
    by (simp add: demo_eval returns_def)
  then obtain out s' where run: "demo_forward 8 8 (Some (demo_image 3 8 8)) True 2 = Inr (out, s')"
    by (elim returnsE) (metis surj_pair)
  from C3_level_is_one_draw [OF run [unfolded demo_forward_def]]
  have "out ''generator_level'' = Some (PyInt 2)"
    and "filter is_randint (new_calls (demo_state 2) s') = [EvRandint 0 3 2]"
    by (simp_all add: demo_state_def)
  then have a: "returned (demo_forward 8 8 (Some (demo_image 3 8 8)) True 2) ''generator_level''
      = Some (PyInt 2)"
    and b: "filter is_randint (calls_of (demo_forward 8 8 (Some (demo_image 3 8 8)) True 2))
       = [EvRandint 0 3 2]"
    using run by (simp_all add: returned_def calls_of_def new_calls_def demo_state_def)
  have c: "returned (demo_forward 8 8 (Some (demo_image 3 8 8)) True 0) ''generator_level''
      = Some (PyInt 0)"
    by (simp add: demo_eval returned_def)
  have d: "returned (demo_forward 8 8 (Some (demo_image 3 8 8)) True 1) ''generator_level''
      = Some (PyInt 1)"
    by (simp add: demo_eval returned_def)
  have e: "filter is_randint (calls_of (demo_forward 8 8 (Some (demo_image 3 8 8)) False 2)) = []"
    by (simp add: demo_eval calls_of_def)
  from a b c d e show ?thesis by simp
qed

subsection \<open>Latent maps and the posterior\<close>

lemma filter_latent_calls:
  assumes "\<And>e. P e \<Longrightarrow> is_new_dist e \<or> is_sample e \<or> is_local_encoder e \<or> is_cat e \<or> is_generator e"
  shows "filter P (latent_calls evs) = filter P evs"
  using assms by (induction evs) (auto simp: latent_calls_def)

lemma forward_latents:
  assumes "forward self ro rd lp bg gt mlg kw s = Inr (out, s')"
  obtains comp comp_rgb latent latent_p comp_lr d1 z1 lr lvl post gan
  where "base_value (new_calls s s') ''comp_rgb'' = Some (PyTensor comp)"
    and "slice_last_to 3 comp = Inr comp_rgb"
    and "slice_last_from 3 comp = Inr latent"
    and "permute [0, 3, 1, 2] latent = Inr latent_p"
    and "permute [0, 3, 1, 2] comp_rgb = Inr lr"
    and "filter is_clone (new_calls s s') = [EvClone comp_rgb comp_lr]"
    and "d1 = Dist (next_obj s) latent_p"
    and "samples_of d1 (new_calls s s') = [z1]"
    and "out ''comp_lr_rgb'' = Some (PyTensor comp_lr)"
    and "out ''posterior'' = Some (PyDist post)"
    and "out ''generator_level'' = Some (PyInt lvl)"
    and "((lvl = 0 \<or> lvl = 1) \<and> post = d1 \<and>
            (\<exists>x g. latent_calls (new_calls s s') =
               [EvNewDist latent_p d1, EvSample d1 z1, EvCat lr z1 x, EvGenerator x g gan]))
       \<or> (lvl = 2 \<and>
            (\<exists>gt_t gt_p l z2 x g. gt = Some gt_t \<and> permute [0, 3, 1, 2] gt_t = Inr gt_p \<and>
               post = Dist (Suc (next_obj s)) l \<and>
               latent_calls (new_calls s s') =
               [EvNewDist latent_p d1, EvSample d1 z1, EvLocalEncoder gt_p l,
                EvNewDist l post, EvSample post z2, EvCat lr z2 x, EvGenerator x g gan]))"
  using assms
proof (cases rule: forward_run)
  case (1 B H W C lvl pre ro_p ro_i ro4 rd_p rd_i rd4 out0 comp comp_rgb latent comp_lr
      latent_p d1 z1 lr post gan branch up gan_out rgb_out)
  have calls: "new_calls s s' = pre @
           [EvInterpolate ro_p (H div 4, W div 4) Bilinear ro_i,
            EvInterpolate rd_p (H div 4, W div 4) Bilinear rd_i,
            EvBaseRenderer ro4 rd4 lp bg kw out0,
            EvClone comp_rgb comp_lr,
            EvNewDist latent_p d1,
            EvSample d1 z1] @ branch @ [EvInterpolate lr (H, W) Bilinear up]"
    using 1(25) by (rule new_calls_append)
  from 1(2) consider "pre = []" | "pre = [EvRandint 0 3 lvl]"
    by (auto split: if_splits)
  then have bv: "base_value (new_calls s s') ''comp_rgb'' = Some (PyTensor comp)"
    by cases (simp_all add: calls 1(12))
  have cl: "filter is_clone (new_calls s s') = [EvClone comp_rgb comp_lr]"
    using 1(2,20) by (auto simp: calls split: if_splits)
  have lc: "latent_calls (new_calls s s') =
      [EvNewDist latent_p d1, EvSample d1 z1] @ latent_calls branch"
    using 1(2) by (auto simp: calls latent_calls_def split: if_splits)
  have br: "((lvl = 0 \<or> lvl = 1) \<and> post = d1 \<and>
            (\<exists>x g. latent_calls (new_calls s s') =
               [EvNewDist latent_p d1, EvSample d1 z1, EvCat lr z1 x, EvGenerator x g gan]))
       \<or> (lvl = 2 \<and>
            (\<exists>gt_t gt_p l z2 x g. gt = Some gt_t \<and> permute [0, 3, 1, 2] gt_t = Inr gt_p \<and>
               post = Dist (Suc (next_obj s)) l \<and>
               latent_calls (new_calls s s') =
               [EvNewDist latent_p d1, EvSample d1 z1, EvLocalEncoder gt_p l,
                EvNewDist l post, EvSample post z2, EvCat lr z2 x, EvGenerator x g gan]))"
    using 1(20) unfolding lc by (elim disjE conjE exE) (simp_all add: latent_calls_def)
  have so: "samples_of d1 (new_calls s s') = [z1]"
    using 1(2,18,20) by (auto simp: calls split: if_splits)
  show thesis
    by (rule that [OF bv 1(13) 1(14) 1(17) 1(19) cl 1(18) so _ _ _ br]) (simp_all add: 1(24))
qed

lemmas demo_obs = returned_def calls_of_def returns_def latent_calls_def

text \<open>
  Claim C2. In a call of \<^verbatim>\<open>forward\<close> that returns with level 2, the calls that
  make and use latent maps are, in this order: the distribution built from the latent
  channels of the base renderer and its sample; the local encoder on the permuted
  ground truth; a second distribution object, built from the output of the local encoder,
  and its sample; the concatenation of the low-resolution image with that second sample;
  the generator on the concatenation. With level 0 or 1 there is one distribution and
  one sample, and the concatenation given to the generator holds that sample.
\<close>

theorem C2_latent_fed_to_generator:
  assumes "forward self rays_o rays_d light_positions bg_color gt_rgb multi_level_guidance kwargs s
             = Inr (out, s')"
  shows "\<exists>comp latent latent_p d1 z1 lr.
           base_value (new_calls s s') ''comp_rgb'' = Some (PyTensor comp)
         \<and> slice_last_from 3 comp = Inr latent
         \<and> permute [0, 3, 1, 2] latent = Inr latent_p
         \<and> parameters d1 = latent_p
         \<and> (out ''generator_level'' = Some (PyInt 2) \<longrightarrow>
              (\<exists>gt_t gt_p l d2 z2 x g y.
                 gt_rgb = Some gt_t \<and> permute [0, 3, 1, 2] gt_t = Inr gt_p
               \<and> parameters d2 = l \<and> dist_id d2 \<noteq> dist_id d1
               \<and> latent_calls (new_calls s s') =
                   [EvNewDist latent_p d1, EvSample d1 z1, EvLocalEncoder gt_p l,
                    EvNewDist l d2, EvSample d2 z2, EvCat lr z2 x, EvGenerator x g y]))
         \<and> (out ''generator_level'' = Some (PyInt 0) \<or> out ''generator_level'' = Some (PyInt 1) \<longrightarrow>
              (\<exists>x g y. latent_calls (new_calls s s') =
                   [EvNewDist latent_p d1, EvSample d1 z1, EvCat lr z1 x, EvGenerator x g y]))"
  using assms
proof (cases rule: forward_latents)
  case (1 comp comp_rgb latent latent_p comp_lr d1 z1 lr lvl post gan)
  have p: "parameters d1 = latent_p" using 1(7) by simp
  from 1(12) show ?thesis
  proof
    assume "(lvl = 0 \<or> lvl = 1) \<and> post = d1 \<and>
            (\<exists>x g. latent_calls (new_calls s s') =
               [EvNewDist latent_p d1, EvSample d1 z1, EvCat lr z1 x, EvGenerator x g gan])"
    then obtain x g where "lvl = 0 \<or> lvl = 1" and "latent_calls (new_calls s s') =
               [EvNewDist latent_p d1, EvSample d1 z1, EvCat lr z1 x, EvGenerator x g gan]"
      by blast
    with 1(1,3,4,11) p show ?thesis by fastforce
  next
    assume "lvl = 2 \<and>
            (\<exists>gt_t gt_p l z2 x g. gt_rgb = Some gt_t \<and> permute [0, 3, 1, 2] gt_t = Inr gt_p \<and>
               post = Dist (Suc (next_obj s)) l \<and>
               latent_calls (new_calls s s') =
               [EvNewDist latent_p d1, EvSample d1 z1, EvLocalEncoder gt_p l,
                EvNewDist l post, EvSample post z2, EvCat lr z2 x, EvGenerator x g gan])"
    then obtain gt_t gt_p l z2 x g
      where a: "lvl = 2" "gt_rgb = Some gt_t" "permute [0, 3, 1, 2] gt_t = Inr gt_p"
        "post = Dist (Suc (next_obj s)) l"
        "latent_calls (new_calls s s') =
               [EvNewDist latent_p d1, EvSample d1 z1, EvLocalEncoder gt_p l,
                EvNewDist l post, EvSample post z2, EvCat lr z2 x, EvGenerator x g gan]"
      by blast
    from a(4) 1(7) have "parameters post = l" "dist_id post \<noteq> dist_id d1"
      by simp_all
    with a 1(1,3,4,11) p show ?thesis by fastforce
  qed
qed

theorem C2_witness:
  "returned (demo_forward 8 8 (Some (demo_image 3 8 8)) True 2) ''generator_level'' = Some (PyInt 2)
   \<and> latent_calls (calls_of (demo_forward 8 8 (Some (demo_image 3 8 8)) True 2)) =
       [EvNewDist (Tensor 6 [NarrowLast 3 8, Permute [0, 3, 1, 2]] [1, 8, 2, 2])
          (Dist 0 (Tensor 6 [NarrowLast 3 8, Permute [0, 3, 1, 2]] [1, 8, 2, 2])),
        EvSample (Dist 0 (Tensor 6 [NarrowLast 3 8, Permute [0, 3, 1, 2]] [1, 8, 2, 2]))
          (Tensor 9 [] [1, 4, 2, 2]),
        EvLocalEncoder (Tensor 3 [Permute [0, 3, 1, 2]] [1, 3, 8, 8]) (Tensor 12 [] [1, 8, 2, 2]),
        EvNewDist (Tensor 12 [] [1, 8, 2, 2]) (Dist 1 (Tensor 12 [] [1, 8, 2, 2])),
        EvSample (Dist 1 (Tensor 12 [] [1, 8, 2, 2])) (Tensor 13 [] [1, 4, 2, 2]),
        EvCat (Tensor 6 [NarrowLast 0 3, Permute [0, 3, 1, 2]] [1, 3, 2, 2])
          (Tensor 13 [] [1, 4, 2, 2]) (Tensor 14 [] [1, 7, 2, 2]),
        EvGenerator (Tensor 14 [] [1, 7, 2, 2]) (Tensor 11 [] [1, 64, 1, 1])
          (Tensor 15 [] [1, 3, 8, 8])]"
proof -
  have "returns (demo_forward 8 8 (Some (demo_image 3 8 8)) True 2)"
    by (simp add: demo_eval demo_obs)
  then obtain out s' where run: "demo_forward 8 8 (Some (demo_image 3 8 8)) True 2 = Inr (out, s')"
    by (elim returnsE) (metis surj_pair)
  note C2_latent_fed_to_generator [OF run [unfolded demo_forward_def]]
  moreover have "returned (demo_forward 8 8 (Some (demo_image 3 8 8)) True 2) ''generator_level''
      = Some (PyInt 2)"
    by (simp add: demo_eval demo_obs)
  moreover have "latent_calls (calls_of (demo_forward 8 8 (Some (demo_image 3 8 8)) True 2)) =
       [EvNewDist (Tensor 6 [NarrowLast 3 8, Permute [0, 3, 1, 2]] [1, 8, 2, 2])
          (Dist 0 (Tensor 6 [NarrowLast 3 8, Permute [0, 3, 1, 2]] [1, 8, 2, 2])),
        EvSample (Dist 0 (Tensor 6 [NarrowLast 3 8, Permute [0, 3, 1, 2]] [1, 8, 2, 2]))
          (Tensor 9 [] [1, 4, 2, 2]),
        EvLocalEncoder (Tensor 3 [Permute [0, 3, 1, 2]] [1, 3, 8, 8]) (Tensor 12 [] [1, 8, 2, 2]),
        EvNewDist (Tensor 12 [] [1, 8, 2, 2]) (Dist 1 (Tensor 12 [] [1, 8, 2, 2])),
        EvSample (Dist 1 (Tensor 12 [] [1, 8, 2, 2])) (Tensor 13 [] [1, 4, 2, 2]),
        EvCat (Tensor 6 [NarrowLast 0 3, Permute [0, 3, 1, 2]] [1, 3, 2, 2])
          (Tensor 13 [] [1, 4, 2, 2]) (Tensor 14 [] [1, 7, 2, 2]),
        EvGenerator (Tensor 14 [] [1, 7, 2, 2]) (Tensor 11 [] [1, 64, 1, 1])
          (Tensor 15 [] [1, 3, 8, 8])]"
    by (simp add: demo_eval demo_obs)
  ultimately show ?thesis by blast
qed

text \<open>
  Claim C10. The object returned under \<^verbatim>\<open>posterior\<close> depends on the level. At
  level 2 it is the second distribution of the call, built from the output of the local
  encoder on the ground truth, and not the first one; at levels 0 and 1 it is the only
  distribution of the call, built from the latent channels of the base renderer. The level
  is one of 0, 1 and 2.
\<close>

theorem C10_posterior_by_level:
  assumes "forward self rays_o rays_d light_positions bg_color gt_rgb multi_level_guidance kwargs s
             = Inr (out, s')"
  shows "\<exists>comp latent latent_p d1 post.
           base_value (new_calls s s') ''comp_rgb'' = Some (PyTensor comp)
         \<and> slice_last_from 3 comp = Inr latent
         \<and> permute [0, 3, 1, 2] latent = Inr latent_p
         \<and> parameters d1 = latent_p
         \<and> out ''posterior'' = Some (PyDist post)
         \<and> (out ''generator_level'' = Some (PyInt 2) \<longrightarrow>
              (\<exists>gt_t gt_p l.
                 gt_rgb = Some gt_t \<and> permute [0, 3, 1, 2] gt_t = Inr gt_p
               \<and> filter is_local_encoder (new_calls s s') = [EvLocalEncoder gt_p l]
               \<and> filter is_new_dist (new_calls s s') = [EvNewDist latent_p d1, EvNewDist l post]
               \<and> parameters post = l \<and> dist_id post \<noteq> dist_id d1))
         \<and> (out ''generator_level'' = Some (PyInt 0) \<or> out ''generator_level'' = Some (PyInt 1) \<longrightarrow>
              post = d1 \<and> filter is_new_dist (new_calls s s') = [EvNewDist latent_p d1])
         \<and> (out ''generator_level'' = Some (PyInt 0) \<or> out ''generator_level'' = Some (PyInt 1)
              \<or> out ''generator_level'' = Some (PyInt 2))"
  using assms
proof (cases rule: forward_latents)
  case (1 comp comp_rgb latent latent_p comp_lr d1 z1 lr lvl post gan)
  have p: "parameters d1 = latent_p" using 1(7) by simp
  have nd: "filter is_new_dist (new_calls s s') = filter is_new_dist (latent_calls (new_calls s s'))"
    by (rule filter_latent_calls [symmetric]) simp
  have le: "filter is_local_encoder (new_calls s s')
      = filter is_local_encoder (latent_calls (new_calls s s'))"
    by (rule filter_latent_calls [symmetric]) simp
  from 1(12) show ?thesis
  proof
    assume "(lvl = 0 \<or> lvl = 1) \<and> post = d1 \<and>
            (\<exists>x g. latent_calls (new_calls s s') =
               [EvNewDist latent_p d1, EvSample d1 z1, EvCat lr z1 x, EvGenerator x g gan])"
    then obtain x g where a: "lvl = 0 \<or> lvl = 1" "post = d1" "latent_calls (new_calls s s') =
               [EvNewDist latent_p d1, EvSample d1 z1, EvCat lr z1 x, EvGenerator x g gan]"
      by blast
    from a(3) have "filter is_new_dist (new_calls s s') = [EvNewDist latent_p d1]"
      unfolding nd by simp
    with a(1,2) 1(1,3,4,10,11) p show ?thesis by fastforce
  next
    assume "lvl = 2 \<and>
            (\<exists>gt_t gt_p l z2 x g. gt_rgb = Some gt_t \<and> permute [0, 3, 1, 2] gt_t = Inr gt_p \<and>
               post = Dist (Suc (next_obj s)) l \<and>
               latent_calls (new_calls s s') =
               [EvNewDist latent_p d1, EvSample d1 z1, EvLocalEncoder gt_p l,
                EvNewDist l post, EvSample post z2, EvCat lr z2 x, EvGenerator x g gan])"
    then obtain gt_t gt_p l z2 x g
      where a: "lvl = 2" "gt_rgb = Some gt_t" "permute [0, 3, 1, 2] gt_t = Inr gt_p"
        "post = Dist (Suc (next_obj s)) l"
        "latent_calls (new_calls s s') =
               [EvNewDist latent_p d1, EvSample d1 z1, EvLocalEncoder gt_p l,
                EvNewDist l post, EvSample post z2, EvCat lr z2 x, EvGenerator x g gan]"
      by blast
    from a(4) 1(7) have b: "parameters post = l" "dist_id post \<noteq> dist_id d1"
      by simp_all
    from a(5) have c: "filter is_new_dist (new_calls s s') = [EvNewDist latent_p d1, EvNewDist l post]"
      "filter is_local_encoder (new_calls s s') = [EvLocalEncoder gt_p l]"
      unfolding nd le by simp_all
    from a(1,2,3) b c 1(1,3,4,10,11) p show ?thesis by fastforce
  qed
qed

theorem C10_witness:
  "returned (demo_forward 8 8 (Some (demo_image 3 8 8)) True 2) ''posterior''
     = Some (PyDist (Dist 1 (Tensor 12 [] [1, 8, 2, 2])))
   \<and> filter is_new_dist (calls_of (demo_forward 8 8 (Some (demo_image 3 8 8)) True 2)) =
       [EvNewDist (Tensor 6 [NarrowLast 3 8, Permute [0, 3, 1, 2]] [1, 8, 2, 2])
          (Dist 0 (Tensor 6 [NarrowLast 3 8, Permute [0, 3, 1, 2]] [1, 8, 2, 2])),
        EvNewDist (Tensor 12 [] [1, 8, 2, 2]) (Dist 1 (Tensor 12 [] [1, 8, 2, 2]))]
   \<and> returned (demo_forward 8 8 (Some (demo_image 3 8 8)) True 1) ''posterior''
     = Some (PyDist (Dist 0 (Tensor 6 [NarrowLast 3 8, Permute [0, 3, 1, 2]] [1, 8, 2, 2])))
   \<and> returned (demo_forward 8 8 None False 0) ''posterior''
     = Some (PyDist (Dist 0 (Tensor 6 [NarrowLast 3 8, Permute [0, 3, 1, 2]] [1, 8, 2, 2])))"
proof -
  have "returns (demo_forward 8 8 (Some (demo_image 3 8 8)) True 2)"
    by (simp add: demo_eval demo_obs)
  then obtain out s' where run: "demo_forward 8 8 (Some (demo_image 3 8 8)) True 2 = Inr (out, s')"
    by (elim returnsE) (metis surj_pair)
  note C10_posterior_by_level [OF run [unfolded demo_forward_def]]
  moreover have "returned (demo_forward 8 8 (Some (demo_image 3 8 8)) True 2) ''posterior''
     = Some (PyDist (Dist 1 (Tensor 12 [] [1, 8, 2, 2])))"
    by (simp add: demo_eval demo_obs)
  moreover have "filter is_new_dist (calls_of (demo_forward 8 8 (Some (demo_image 3 8 8)) True 2)) =
       [EvNewDist (Tensor 6 [NarrowLast 3 8, Permute [0, 3, 1, 2]] [1, 8, 2, 2])
          (Dist 0 (Tensor 6 [NarrowLast 3 8, Permute [0, 3, 1, 2]] [1, 8, 2, 2])),
        EvNewDist (Tensor 12 [] [1, 8, 2, 2]) (Dist 1 (Tensor 12 [] [1, 8, 2, 2]))]"
    by (simp add: demo_eval demo_obs)
  moreover have "returned (demo_forward 8 8 (Some (demo_image 3 8 8)) True 1) ''posterior''
     = Some (PyDist (Dist 0 (Tensor 6 [NarrowLast 3 8, Permute [0, 3, 1, 2]] [1, 8, 2, 2])))"
    by (simp add: demo_eval demo_obs)
  moreover have "returned (demo_forward 8 8 None False 0) ''posterior''
     = Some (PyDist (Dist 0 (Tensor 6 [NarrowLast 3 8, Permute [0, 3, 1, 2]] [1, 8, 2, 2])))"
    by (simp add: demo_eval demo_obs)
  ultimately show ?thesis by blast
qed

lemma calls_ignore_mode:
  "call_base_renderer (self\<lparr>dist_mode := f\<rparr>) = call_base_renderer self"
  "call_global_encoder (self\<lparr>dist_mode := f\<rparr>) = call_global_encoder self"
  "call_local_encoder (self\<lparr>dist_mode := f\<rparr>) = call_local_encoder self"
  "call_generator (self\<lparr>dist_mode := f\<rparr>) = call_generator self"
  "DiagonalGaussianDistribution (self\<lparr>dist_mode := f\<rparr>) = DiagonalGaussianDistribution self"
  "sample (self\<lparr>dist_mode := f\<rparr>) = sample self"
  by (intro ext, simp add: call_base_renderer_def call_global_encoder_def call_local_encoder_def
      call_generator_def DiagonalGaussianDistribution_def sample_def)+

lemma guidance_branch_ignores_mode:
  "guidance_branch (self\<lparr>dist_mode := f\<rparr>) = guidance_branch self"
  by (intro ext) (simp add: guidance_branch_def calls_ignore_mode cong: if_cong)

lemma forward_ignores_mode: "forward (self\<lparr>dist_mode := f\<rparr>) = forward self"
  by (intro ext)
    (simp add: forward_def render_and_refine_def guidance_branch_ignores_mode calls_ignore_mode)

text \<open>
  Claim C6. In a call of \<^verbatim>\<open>forward\<close> that returns, the composite of the base
  renderer is split at channel 3: the channels before are cloned into
  \<^verbatim>\<open>comp_lr_rgb\<close>, the channels from 3 on, permuted, are the parameters of the
  first distribution of the call, and that distribution is sampled exactly once. The
  method of the distribution that returns its mode plays no part: replacing it changes
  nothing.
\<close>

theorem C6_split_and_one_sample:
  assumes "forward self rays_o rays_d light_positions bg_color gt_rgb multi_level_guidance kwargs s
             = Inr (out, s')"
  shows "(\<exists>comp comp_rgb latent latent_p comp_lr d1 z1.
           base_value (new_calls s s') ''comp_rgb'' = Some (PyTensor comp)
         \<and> slice_last_to 3 comp = Inr comp_rgb
         \<and> slice_last_from 3 comp = Inr latent
         \<and> (\<forall>n h w L. shape comp = [n, h, w, 3 + L] \<longrightarrow>
               shape comp_rgb = [n, h, w, 3] \<and> view comp_rgb = view comp @ [NarrowLast 0 3]
             \<and> shape latent = [n, h, w, L] \<and> view latent = view comp @ [NarrowLast 3 L])
         \<and> filter is_clone (new_calls s s') = [EvClone comp_rgb comp_lr]
         \<and> out ''comp_lr_rgb'' = Some (PyTensor comp_lr)
         \<and> permute [0, 3, 1, 2] latent = Inr latent_p
         \<and> hd (filter is_new_dist (new_calls s s')) = EvNewDist latent_p d1
         \<and> samples_of d1 (new_calls s s') = [z1])
       \<and> forward (self\<lparr>dist_mode := other_mode\<rparr>) rays_o rays_d light_positions bg_color gt_rgb
           multi_level_guidance kwargs s = Inr (out, s')"
proof
  from assms show "\<exists>comp comp_rgb latent latent_p comp_lr d1 z1.
           base_value (new_calls s s') ''comp_rgb'' = Some (PyTensor comp)
         \<and> slice_last_to 3 comp = Inr comp_rgb
         \<and> slice_last_from 3 comp = Inr latent
         \<and> (\<forall>n h w L. shape comp = [n, h, w, 3 + L] \<longrightarrow>
               shape comp_rgb = [n, h, w, 3] \<and> view comp_rgb = view comp @ [NarrowLast 0 3]
             \<and> shape latent = [n, h, w, L] \<and> view latent = view comp @ [NarrowLast 3 L])
         \<and> filter is_clone (new_calls s s') = [EvClone comp_rgb comp_lr]
         \<and> out ''comp_lr_rgb'' = Some (PyTensor comp_lr)
         \<and> permute [0, 3, 1, 2] latent = Inr latent_p
         \<and> hd (filter is_new_dist (new_calls s s')) = EvNewDist latent_p d1
         \<and> samples_of d1 (new_calls s s') = [z1]"
  proof (cases rule: forward_latents)
    case (1 comp comp_rgb latent latent_p comp_lr d1 z1 lr lvl post gan)
    have nd: "filter is_new_dist (new_calls s s') = filter is_new_dist (latent_calls (new_calls s s'))"
      by (rule filter_latent_calls [symmetric]) simp
    from 1(12) have hd: "hd (filter is_new_dist (new_calls s s')) = EvNewDist latent_p d1"
      unfolding nd by auto
    have sl: "\<forall>n h w L. shape comp = [n, h, w, 3 + L] \<longrightarrow>
               shape comp_rgb = [n, h, w, 3] \<and> view comp_rgb = view comp @ [NarrowLast 0 3]
             \<and> shape latent = [n, h, w, L] \<and> view latent = view comp @ [NarrowLast 3 L]"
      using 1(2,3) by (auto simp: slice_last_to_def slice_last_from_def)
    from 1(1,2,3,4,6,8,9) hd sl show ?thesis by blast
  qed
next
  from assms show "forward (self\<lparr>dist_mode := other_mode\<rparr>) rays_o rays_d light_positions
      bg_color gt_rgb multi_level_guidance kwargs s = Inr (out, s')"
    by (simp add: forward_ignores_mode)
qed

theorem C6_witness:
  "base_value (calls_of (demo_forward 8 8 (Some (demo_image 3 8 8)) True 2)) ''comp_rgb''
     = Some (PyTensor (Tensor 6 [] [1, 2, 2, 11]))
   \<and> returned (demo_forward 8 8 (Some (demo_image 3 8 8)) True 2) ''comp_lr_rgb''
     = Some (PyTensor (Tensor 8 [] [1, 2, 2, 3]))
   \<and> filter is_clone (calls_of (demo_forward 8 8 (Some (demo_image 3 8 8)) True 2))
     = [EvClone (Tensor 6 [NarrowLast 0 3] [1, 2, 2, 3]) (Tensor 8 [] [1, 2, 2, 3])]
   \<and> samples_of (Dist 0 (Tensor 6 [NarrowLast 3 8, Permute [0, 3, 1, 2]] [1, 8, 2, 2]))
       (calls_of (demo_forward 8 8 (Some (demo_image 3 8 8)) True 2))
     = [Tensor 9 [] [1, 4, 2, 2]]
   \<and> filter is_sample (calls_of (demo_forward 8 8 (Some (demo_image 3 8 8)) True 2))
     = [EvSample (Dist 0 (Tensor 6 [NarrowLast 3 8, Permute [0, 3, 1, 2]] [1, 8, 2, 2]))
          (Tensor 9 [] [1, 4, 2, 2]),
        EvSample (Dist 1 (Tensor 12 [] [1, 8, 2, 2])) (Tensor 13 [] [1, 4, 2, 2])]"
proof -
  have "returns (demo_forward 8 8 (Some (demo_image 3 8 8)) True 2)"
    by (simp add: demo_eval demo_obs)
  then obtain out s' where run: "demo_forward 8 8 (Some (demo_image 3 8 8)) True 2 = Inr (out, s')"
    by (elim returnsE) (metis surj_pair)
  note C6_split_and_one_sample [OF run [unfolded demo_forward_def], of demo_mode]
  moreover have "base_value (calls_of (demo_forward 8 8 (Some (demo_image 3 8 8)) True 2)) ''comp_rgb''
     = Some (PyTensor (Tensor 6 [] [1, 2, 2, 11]))"
    by (simp add: demo_eval demo_obs)
  moreover have "returned (demo_forward 8 8 (Some (demo_image 3 8 8)) True 2) ''comp_lr_rgb''
     = Some (PyTensor (Tensor 8 [] [1, 2, 2, 3]))"
    by (simp add: demo_eval demo_obs)
  moreover have "filter is_clone (calls_of (demo_forward 8 8 (Some (demo_image 3 8 8)) True 2))
     = [EvClone (Tensor 6 [NarrowLast 0 3] [1, 2, 2, 3]) (Tensor 8 [] [1, 2, 2, 3])]"
    by (simp add: demo_eval demo_obs)
  moreover have "samples_of (Dist 0 (Tensor 6 [NarrowLast 3 8, Permute [0, 3, 1, 2]] [1, 8, 2, 2]))
       (calls_of (demo_forward 8 8 (Some (demo_image 3 8 8)) True 2))
     = [Tensor 9 [] [1, 4, 2, 2]]"
    by (simp add: demo_eval demo_obs)
  moreover have "filter is_sample (calls_of (demo_forward 8 8 (Some (demo_image 3 8 8)) True 2))
     = [EvSample (Dist 0 (Tensor 6 [NarrowLast 3 8, Permute [0, 3, 1, 2]] [1, 8, 2, 2]))
          (Tensor 9 [] [1, 4, 2, 2]),
        EvSample (Dist 1 (Tensor 12 [] [1, 8, 2, 2])) (Tensor 13 [] [1, 4, 2, 2])]"
    by (simp add: demo_eval demo_obs)
  ultimately show ?thesis by blast
qed

subsection \<open>The methods that delegate\<close>

text \<open>
  Claim C9. Each of \<^verbatim>\<open>update_step\<close>, \<^verbatim>\<open>train\<close> and \<^verbatim>\<open>eval\<close> has the
  outcome of the method of the same name of the base renderer, called with the same
  arguments on the base renderer that the object holds: the same exception or the same
  returned value, the base renderer changed as that method changes it, and nothing else
  of the object changed. For \<^verbatim>\<open>update_step\<close>, whose result the renderer drops, the
  returned values agree because the method of the base renderer returns \<^verbatim>\<open>None\<close>,
  as its signature says.
\<close>

theorem C9_lifecycle_methods_delegate:
  assumes "returns_none cls"
  shows "update_step cls epoch global_step on_load_weights self
           = delegated (base_update_step cls epoch global_step on_load_weights
                          (base_renderer_state self)) self
       \<and> train cls mode self = delegated (base_train cls mode (base_renderer_state self)) self
       \<and> eval cls self = delegated (base_eval cls (base_renderer_state self)) self"
proof (intro conjI)
  show "update_step cls epoch global_step on_load_weights self
           = delegated (base_update_step cls epoch global_step on_load_weights
                          (base_renderer_state self)) self"
  proof (cases "base_update_step cls epoch global_step on_load_weights (base_renderer_state self)")
    case (Inl e)
    then show ?thesis by (simp add: update_step_def delegated_def)
  next
    case (Inr p)
    obtain v r where p: "p = (v, r)" by (cases p)
    with Inr assms have "v = None" unfolding returns_none_def by blast
    with Inr p show ?thesis
      by (cases self) (simp add: update_step_def delegated_def)
  qed
next
  show "train cls mode self = delegated (base_train cls mode (base_renderer_state self)) self"
    by (cases self) (simp add: train_def delegated_def split: sum.splits)
next
  show "eval cls self = delegated (base_eval cls (base_renderer_state self)) self"
    by (cases self) (simp add: eval_def delegated_def split: sum.splits)
qed

theorem C9_witness:
  "returns_none demo_base_class
   \<and> update_step demo_base_class 0 7 False demo_obj
       = Inr (None, \<lparr>base_renderer_state = (1, True), own_state = True\<rparr>)
   \<and> train demo_base_class False demo_obj
       = Inr (''base'', \<lparr>base_renderer_state = (0, False), own_state = True\<rparr>)
   \<and> eval demo_base_class demo_obj
       = Inr (''base'', \<lparr>base_renderer_state = (0, False), own_state = True\<rparr>)"
proof -
  have h: "returns_none demo_base_class"
    by (simp add: returns_none_def demo_base_class_def)
  from C9_lifecycle_methods_delegate [OF h, of 0 7 False demo_obj False] h
  show ?thesis
    by (simp add: delegated_def demo_base_class_def demo_obj_def)
qed

subsection \<open>The dictionary returned\<close>

text \<open>
  The value under \<^verbatim>\<open>comp_rgb\<close> is not the one the base renderer produced: on
  the stand-ins, with images of 8 by 8 pixels, the base renderer returns a composite of
  shape (1, 2, 2, 11) under that key, and \<^verbatim>\<open>forward\<close> returns a tensor of shape
  (1, 8, 8, 3) in another buffer.
\<close>

theorem C4_counterexample:
  "base_value (calls_of (demo_forward 8 8 None False 0)) ''comp_rgb''
     = Some (PyTensor (Tensor 6 [] [1, 2, 2, 11]))
   \<and> returned (demo_forward 8 8 None False 0) ''comp_rgb''
     = Some (PyTensor (Tensor 14 [Permute [0, 2, 3, 1]] [1, 8, 8, 3]))
   \<and> returned (demo_forward 8 8 None False 0) ''comp_rgb''
     \<noteq> base_value (calls_of (demo_forward 8 8 None False 0)) ''comp_rgb''"
  by (simp add: demo_eval demo_obs)

text \<open>
  Claim C4, amended. The dictionary that \<^verbatim>\<open>forward\<close> returns is the
  dictionary of the base renderer with six keys written over it, so it has every key of
  the base renderer, and the value of a key is the one of the base renderer unless the key
  is one of the six:
  \<^item> \<^verbatim>\<open>comp_gt_rgb\<close>: the ground truth as it was given;
  \<^item> \<^verbatim>\<open>comp_lr_rgb\<close>: the result of the one \<^verbatim>\<open>clone\<close> of the call,
    made of the first three channels of the composite, a tensor in a buffer of its own;
  \<^item> \<^verbatim>\<open>comp_gan_rgb\<close>: the permuted result of the one call of the generator,
    whose first argument is the one concatenation of the call, of the low-resolution
    image with a latent map;
  \<^item> \<^verbatim>\<open>posterior\<close>: the distribution object made last in the call (of two at
    level 2, of one otherwise), of which that latent map is the last sample;
  \<^item> \<^verbatim>\<open>generator_level\<close>: the value of the draw when there is a ground truth
    and the flag is set, and 0 otherwise;
  \<^item> \<^verbatim>\<open>comp_rgb\<close>, a key of the base renderer, whose value is replaced by the
    bilinear resize to the original size of the first three channels of the composite,
    which is the last call.
\<close>

theorem C4_output_record:
  assumes "forward self rays_o rays_d light_positions bg_color gt_rgb multi_level_guidance kwargs s
             = Inr (out, s')"
  shows "\<exists>B H W C ro4 rd4 out0 comp comp_rgb lr up rgb_out t_lr t_gan d lvl z x g gan p.
           shape rays_o = [B, H, W, C]
         \<and> filter is_base_renderer (new_calls s s')
             = [EvBaseRenderer ro4 rd4 light_positions bg_color kwargs out0]
         \<and> dom out0 \<subseteq> dom out
         \<and> (\<forall>k. k \<notin> {''comp_gt_rgb'', ''comp_lr_rgb'', ''posterior'', ''comp_gan_rgb'',
                       ''comp_rgb'', ''generator_level''} \<longrightarrow> out k = out0 k)
         \<and> out ''comp_gt_rgb'' = Some (py_of_gt gt_rgb)
         \<and> out ''comp_lr_rgb'' = Some (PyTensor t_lr)
         \<and> out ''comp_gan_rgb'' = Some (PyTensor t_gan)
         \<and> out ''posterior'' = Some (PyDist d)
         \<and> out ''generator_level'' = Some (PyInt lvl)
         \<and> out0 ''comp_rgb'' = Some (PyTensor comp)
         \<and> slice_last_to 3 comp = Inr comp_rgb
         \<and> permute [0, 3, 1, 2] comp_rgb = Inr lr
         \<and> last (new_calls s s') = EvInterpolate lr (H, W) Bilinear up
         \<and> permute [0, 2, 3, 1] up = Inr rgb_out
         \<and> out ''comp_rgb'' = Some (PyTensor rgb_out)
         \<and> out = out0(''comp_gt_rgb'' \<mapsto> py_of_gt gt_rgb, ''comp_lr_rgb'' \<mapsto> PyTensor t_lr,
                       ''posterior'' \<mapsto> PyDist d, ''comp_gan_rgb'' \<mapsto> PyTensor t_gan,
                       ''comp_rgb'' \<mapsto> PyTensor rgb_out, ''generator_level'' \<mapsto> PyInt lvl)
         \<and> filter is_clone (new_calls s s') = [EvClone comp_rgb t_lr]
         \<and> view t_lr = [] \<and> shape t_lr = shape comp_rgb
         \<and> filter is_generator (new_calls s s') = [EvGenerator x g gan]
         \<and> permute [0, 2, 3, 1] gan = Inr t_gan
         \<and> filter is_cat (new_calls s s') = [EvCat lr z x]
         \<and> last (filter is_sample (new_calls s s')) = EvSample d z
         \<and> last (filter is_new_dist (new_calls s s')) = EvNewDist p d
         \<and> length (filter is_new_dist (new_calls s s')) = (if lvl = 2 then 2 else 1)
         \<and> (if gt_rgb \<noteq> None \<and> multi_level_guidance
             then lvl = int (shd (rng (mach s)) mod 3) else lvl = 0)"
  using assms
proof (cases rule: forward_run)
  case (1 B H W C lvl pre ro_p ro_i ro4 rd_p rd_i rd4 out0 comp comp_rgb latent comp_lr
      latent_p d1 z1 lr post gan branch up gan_out rgb_out)
  have calls: "new_calls s s' = pre @
           [EvInterpolate ro_p (H div 4, W div 4) Bilinear ro_i,
            EvInterpolate rd_p (H div 4, W div 4) Bilinear rd_i,
            EvBaseRenderer ro4 rd4 light_positions bg_color kwargs out0,
            EvClone comp_rgb comp_lr,
            EvNewDist latent_p d1,
            EvSample d1 z1] @ branch @ [EvInterpolate lr (H, W) Bilinear up]"
    using 1(25) by (rule new_calls_append)
  have pre: "filter is_base_renderer pre = []" "filter is_clone pre = []"
    "filter is_generator pre = []" "filter is_cat pre = []" "filter is_sample pre = []"
    "filter is_new_dist pre = []"
    using 1(2) by (auto split: if_splits)
  have a: "filter is_base_renderer (new_calls s s')
             = [EvBaseRenderer ro4 rd4 light_positions bg_color kwargs out0]"
    and cl: "filter is_clone (new_calls s s') = [EvClone comp_rgb comp_lr]"
    using 1(20) pre by (auto simp: calls)
  have b: "last (new_calls s s') = EvInterpolate lr (H, W) Bilinear up"
    by (simp add: calls)
  have c: "dom out0 \<subseteq> dom out"
    by (auto simp: 1(24))
  have d: "\<forall>k. k \<notin> {''comp_gt_rgb'', ''comp_lr_rgb'', ''posterior'', ''comp_gan_rgb'',
                       ''comp_rgb'', ''generator_level''} \<longrightarrow> out k = out0 k"
    by (simp add: 1(24))
  have e: "out ''comp_gt_rgb'' = Some (py_of_gt gt_rgb)"
    "out ''comp_lr_rgb'' = Some (PyTensor comp_lr)"
    "out ''comp_gan_rgb'' = Some (PyTensor gan_out)"
    "out ''posterior'' = Some (PyDist post)"
    "out ''generator_level'' = Some (PyInt lvl)"
    "out ''comp_rgb'' = Some (PyTensor rgb_out)"
    by (simp_all add: 1(24))
  have lv: "if gt_rgb \<noteq> None \<and> multi_level_guidance
             then lvl = int (shd (rng (mach s)) mod 3) else lvl = 0"
    using 1(2) by (simp split: if_splits)
  have br: "\<exists>z x g p. filter is_generator (new_calls s s') = [EvGenerator x g gan]
         \<and> filter is_cat (new_calls s s') = [EvCat lr z x]
         \<and> last (filter is_sample (new_calls s s')) = EvSample post z
         \<and> last (filter is_new_dist (new_calls s s')) = EvNewDist p post
         \<and> length (filter is_new_dist (new_calls s s')) = (if lvl = 2 then 2 else 1)"
    using 1(20)
  proof (elim disjE)
    assume "lvl = 0 \<and> post = d1 \<and>
            (\<exists>i g x. branch =
               [EvInterpolate lr (224, 224) Nearest i, EvGlobalEncoder i g,
                EvCat lr z1 x, EvGenerator x g gan])"
    then obtain i g x where "lvl = 0" "post = d1" "branch =
               [EvInterpolate lr (224, 224) Nearest i, EvGlobalEncoder i g,
                EvCat lr z1 x, EvGenerator x g gan]" by blast
    then show ?thesis using pre by (simp add: calls)
  next
    assume "lvl = 1 \<and> post = d1 \<and>
            (\<exists>gt_t gt_p i g x. gt_rgb = Some gt_t \<and> permute [0, 3, 1, 2] gt_t = Inr gt_p \<and>
               branch =
               [EvInterpolate gt_p (224, 224) Nearest i, EvGlobalEncoder i g,
                EvCat lr z1 x, EvGenerator x g gan])"
    then obtain gt_p i g x where "lvl = 1" "post = d1" "branch =
               [EvInterpolate gt_p (224, 224) Nearest i, EvGlobalEncoder i g,
                EvCat lr z1 x, EvGenerator x g gan]" by blast
    then show ?thesis using pre by (simp add: calls)
  next
    assume "lvl = 2 \<and>
            (\<exists>gt_t gt_p i g l z2 x. gt_rgb = Some gt_t \<and> permute [0, 3, 1, 2] gt_t = Inr gt_p \<and>
               post = Dist (Suc (next_obj s)) l \<and>
               branch =
               [EvInterpolate gt_p (224, 224) Nearest i, EvGlobalEncoder i g,
                EvLocalEncoder gt_p l, EvNewDist l post, EvSample post z2,
                EvCat lr z2 x, EvGenerator x g gan])"
    then obtain gt_p i g l z2 x where "lvl = 2" "branch =
               [EvInterpolate gt_p (224, 224) Nearest i, EvGlobalEncoder i g,
                EvLocalEncoder gt_p l, EvNewDist l post, EvSample post z2,
                EvCat lr z2 x, EvGenerator x g gan]" by blast
    then show ?thesis using pre by (simp add: calls)
  qed
  then obtain z x g p where br': "filter is_generator (new_calls s s') = [EvGenerator x g gan]"
    "filter is_cat (new_calls s s') = [EvCat lr z x]"
    "last (filter is_sample (new_calls s s')) = EvSample post z"
    "last (filter is_new_dist (new_calls s s')) = EvNewDist p post"
    "length (filter is_new_dist (new_calls s s')) = (if lvl = 2 then 2 else 1)"
    by blast
  show ?thesis
    apply (rule exI [where x = B], rule exI [where x = H], rule exI [where x = W],
        rule exI [where x = C], rule exI [where x = ro4], rule exI [where x = rd4],
        rule exI [where x = out0], rule exI [where x = comp], rule exI [where x = comp_rgb],
        rule exI [where x = lr], rule exI [where x = up], rule exI [where x = rgb_out],
        rule exI [where x = comp_lr], rule exI [where x = gan_out], rule exI [where x = post],
        rule exI [where x = lvl], rule exI [where x = z], rule exI [where x = x],
        rule exI [where x = g], rule exI [where x = gan], rule exI [where x = p])
    using 1(1) a c d e 1(12) 1(13) 1(19) b 1(23) 1(24) cl 1(15) 1(16) br' 1(22) lv
    apply (intro conjI)
    apply assumption+
    done
qed

theorem C4_witness:
  "returned (demo_forward 8 8 None False 0) ''opacity'' = Some (PyTensor (Tensor 7 [] [1, 2, 2, 1]))
   \<and> base_value (calls_of (demo_forward 8 8 None False 0)) ''opacity''
       = Some (PyTensor (Tensor 7 [] [1, 2, 2, 1]))
   \<and> returned (demo_forward 8 8 None False 0) ''comp_gt_rgb'' = Some PyNone
   \<and> returned (demo_forward 8 8 None False 0) ''comp_lr_rgb''
       = Some (PyTensor (Tensor 8 [] [1, 2, 2, 3]))
   \<and> returned (demo_forward 8 8 None False 0) ''comp_gan_rgb''
       = Some (PyTensor (Tensor 13 [Permute [0, 2, 3, 1]] [1, 8, 8, 3]))
   \<and> returned (demo_forward 8 8 None False 0) ''generator_level'' = Some (PyInt 0)"
proof -
  have "returns (demo_forward 8 8 None False 0)"
    by (simp add: demo_eval demo_obs)
  then obtain out s' where run: "demo_forward 8 8 None False 0 = Inr (out, s')"
    by (elim returnsE) (metis surj_pair)
  note C4_output_record [OF run [unfolded demo_forward_def]]
  moreover have "returned (demo_forward 8 8 None False 0) ''opacity''
      = Some (PyTensor (Tensor 7 [] [1, 2, 2, 1]))"
    by (simp add: demo_eval demo_obs)
  moreover have "base_value (calls_of (demo_forward 8 8 None False 0)) ''opacity''
       = Some (PyTensor (Tensor 7 [] [1, 2, 2, 1]))"
    by (simp add: demo_eval demo_obs)
  moreover have "returned (demo_forward 8 8 None False 0) ''comp_gt_rgb'' = Some PyNone"
    by (simp add: demo_eval demo_obs)
  moreover have "returned (demo_forward 8 8 None False 0) ''comp_lr_rgb''
       = Some (PyTensor (Tensor 8 [] [1, 2, 2, 3]))"
    by (simp add: demo_eval demo_obs)
  moreover have "returned (demo_forward 8 8 None False 0) ''comp_gan_rgb''
       = Some (PyTensor (Tensor 13 [Permute [0, 2, 3, 1]] [1, 8, 8, 3]))"
    by (simp add: demo_eval demo_obs)
  moreover have "returned (demo_forward 8 8 None False 0) ''generator_level'' = Some (PyInt 0)"
    by (simp add: demo_eval demo_obs)
  ultimately show ?thesis by blast
qed

subsection \<open>Shapes\<close>

text \<open>
  Claim C7. With a base renderer that returns a composite of 3 + L channels for every
  pixel of the rays it is given, and rays of shape (B, H, W, 3), a call of
  \<^verbatim>\<open>forward\<close> that returns has under \<^verbatim>\<open>comp_rgb\<close> a tensor of shape
  (B, H, W, 3): the bilinear resize to (H, W) of the low-resolution image of shape
  (B, 3, H div 4, W div 4), permuted back. The values of the pixels are floating-point
  numbers and are not part of the statement.
\<close>

theorem C7_upsampled_shape:
  assumes "base_renderer_contract self"
    and "shape rays_o = [B, H, W, 3]"
    and "forward self rays_o rays_d light_positions bg_color gt_rgb multi_level_guidance kwargs s
           = Inr (out, s')"
  shows "\<exists>lr up t. last (new_calls s s') = EvInterpolate lr (H, W) Bilinear up
           \<and> shape lr = [B, 3, H div 4, W div 4]
           \<and> permute [0, 2, 3, 1] up = Inr t
           \<and> out ''comp_rgb'' = Some (PyTensor t)
           \<and> shape t = [B, H, W, 3]"
  using assms(3)
proof (cases rule: forward_run)
  case (1 B' H' W' C' lvl pre ro_p ro_i ro4 rd_p rd_i rd4 out0 comp comp_rgb latent comp_lr
      latent_p d1 z1 lr post gan branch up gan_out rgb_out)
  from 1(1) assms(2) have eq: "B' = B" "H' = H" "W' = W" "C' = 3" by simp_all
  from 1(26) obtain m m' where "base_renderer self ro4 rd4 light_positions bg_color kwargs m
      = Inr (out0, m')" by blast
  with assms(1) obtain n h w c comp' L
    where "shape ro4 = [n, h, w, c]" "out0 ''comp_rgb'' = Some (PyTensor comp')"
      "shape comp' = [n, h, w, 3 + L]"
    unfolding base_renderer_contract_def by blast
  with 1(6,12) eq have sc: "shape comp = [B, H div 4, W div 4, 3 + L]" by simp
  with 1(13) have "shape comp_rgb = [B, H div 4, W div 4, 3]"
    by (auto simp: slice_last_to_def)
  with permute_Inr [OF 1(19)] have sl: "shape lr = [B, 3, H div 4, W div 4]" by simp
  with 1(21) eq have "shape up = [B, 3, H, W]" by simp
  with permute_Inr [OF 1(23)] have st: "shape rgb_out = [B, H, W, 3]" by simp
  have "last (new_calls s s') = EvInterpolate lr (H, W) Bilinear up"
    using new_calls_append [OF 1(25)] eq by simp
  moreover have "out ''comp_rgb'' = Some (PyTensor rgb_out)"
    by (simp add: 1(24))
  ultimately show ?thesis
    using sl st 1(23) by blast
qed

theorem C7_witness:
  "base_renderer_contract demo_modules
   \<and> shape (demo_image 0 10 7) = [1, 10, 7, 3]
   \<and> returns (demo_forward 10 7 None False 0)
   \<and> shape_of (returned (demo_forward 10 7 None False 0) ''comp_rgb'') = Some [1, 10, 7, 3]"
proof -
  have c: "base_renderer_contract demo_modules"
    unfolding base_renderer_contract_def
    by (auto simp: demo_modules_def demo_base_renderer_def split: list.splits)
  have sh: "shape (demo_image 0 10 7) = [1, 10, 7, 3]"
    by (simp add: demo_image_def)
  have r: "returns (demo_forward 10 7 None False 0)"
    by (simp add: demo_eval demo_obs)
  then obtain out s' where run: "demo_forward 10 7 None False 0 = Inr (out, s')"
    by (elim returnsE) (metis surj_pair)
  from C7_upsampled_shape [OF c sh run [unfolded demo_forward_def]]
  obtain t where "out ''comp_rgb'' = Some (PyTensor t)" "shape t = [1, 10, 7, 3]"
    by blast
  with run have "shape_of (returned (demo_forward 10 7 None False 0) ''comp_rgb'')
      = Some [1, 10, 7, 3]"
    by (simp add: returned_def shape_of_def)
  with c sh r show ?thesis by simp
qed

subsection \<open>The rays given to the base renderer\<close>

lemma choose_generator_level_total:
  "\<exists>lvl s1. choose_generator_level gt mlg s = Inr (lvl, s1)"
  by (simp add: choose_generator_level_def randint_def ret_def Let_def)

lemma downsample_rays_too_small:
  assumes "shape rays = [B, H, W, 3]" and "H < 4 \<or> W < 4"
  shows "downsample_rays H W rays s = Inl RuntimeError"
  using assms
  by (auto simp: downsample_rays_def andThen_def lift_def permute_def interpolate_def)

lemma downsample_rays_succeeds:
  assumes "shape rays = [B, H, W, 3]" and "4 \<le> H" and "4 \<le> W"
  shows "\<exists>rays4 s1. downsample_rays H W rays s = Inr (rays4, s1)"
proof -
  from assms(2,3) have "H div 4 \<noteq> 0" "W div 4 \<noteq> 0" "H \<noteq> 0" "W \<noteq> 0"
    by (simp_all add: div_eq_0_iff)
  with assms(1) show ?thesis
    by (simp add: downsample_rays_def andThen_def lift_def permute_def interpolate_def
        alloc_def)
qed

lemma render_and_refine_base_fails:
  assumes "base_renderer self ro4 rd4 lp bg kw (mach s) = Inl e"
  shows "render_and_refine self H W lvl ro4 rd4 lp bg gt kw s = Inl e"
  using assms by (simp add: render_and_refine_def andThen_def call_base_renderer_def)

text \<open>
  A height that is not a multiple of 4 can make the call fail: with rays of 3 by 8 pixels
  the size asked of the resize is (0, 2), which \<^verbatim>\<open>interpolate\<close> refuses.
\<close>

theorem C5_counterexample:
  "\<not> (4 :: nat) dvd 3
   \<and> downsample_rays 3 8 (demo_image 0 3 8) (demo_state 0) = Inl RuntimeError
   \<and> demo_forward 3 8 None False 0 = Inl RuntimeError"
  by (simp add: demo_eval)

text \<open>
  Claim C5, amended. Let the rays have shape (B, H, W, 3).
  \<^item> With H and W at least 4, multiples of 4 or not, \<^verbatim>\<open>forward\<close> gets past
    lines 73 to 76 without an error: after the choice of the level it permutes the
    origins and resizes them with a bilinear \<^verbatim>\<open>interpolate\<close> to
    (H div 4, W div 4), does the same with the directions, and goes on to call the base
    renderer on the two results permuted back, of shape (B, H div 4, W div 4, 3). The two
    resized tensors live in the next two free buffers; no random number is drawn and
    nothing else of the state changes. An error of the base renderer on these rays is
    the error of \<^verbatim>\<open>forward\<close>.
  \<^item> In every call that returns, the first two resizes recorded are these two, on the
    permuted origins and on the permuted directions, into the two buffers that were free
    at the call, and the base renderer is called once, on their results permuted back.
  \<^item> With H or W below 4 the call fails in the resize.
\<close>

theorem C5_rays_downsampled:
  assumes "shape rays_o = [B, H, W, 3]" and "shape rays_d = [B, H, W, 3]"
  shows "(4 \<le> H \<and> 4 \<le> W \<longrightarrow>
            (\<exists>ro4 s1 rd4 s2 ro_p ro_i rd_p rd_i.
               downsample_rays H W rays_o s = Inr (ro4, s1)
             \<and> downsample_rays H W rays_d s1 = Inr (rd4, s2)
             \<and> shape ro4 = [B, H div 4, W div 4, 3]
             \<and> shape rd4 = [B, H div 4, W div 4, 3]
             \<and> permute [0, 3, 1, 2] rays_o = Inr ro_p \<and> permute [0, 2, 3, 1] ro_i = Inr ro4
             \<and> permute [0, 3, 1, 2] rays_d = Inr rd_p \<and> permute [0, 2, 3, 1] rd_i = Inr rd4
             \<and> new_calls s s2 =
                 [EvInterpolate ro_p (H div 4, W div 4) Bilinear ro_i,
                  EvInterpolate rd_p (H div 4, W div 4) Bilinear rd_i]
             \<and> storage ro4 = next_addr (mach s) \<and> storage rd4 = Suc (next_addr (mach s))
             \<and> next_addr (mach s2) = next_addr (mach s) + 2
             \<and> rng (mach s2) = rng (mach s) \<and> next_obj s2 = next_obj s))
       \<and> (H < 4 \<or> W < 4 \<longrightarrow>
            forward self rays_o rays_d light_positions bg_color gt_rgb multi_level_guidance
              kwargs s = Inl RuntimeError)
       \<and> (\<forall>out s'.
            forward self rays_o rays_d light_positions bg_color gt_rgb multi_level_guidance
              kwargs s = Inr (out, s') \<longrightarrow>
            4 \<le> H \<and> 4 \<le> W \<and>
            (\<exists>ro4 rd4. rays_forwarded (new_calls s s') = [(ro4, rd4)]
               \<and> shape ro4 = [B, H div 4, W div 4, 3]
               \<and> shape rd4 = [B, H div 4, W div 4, 3]))
       \<and> (4 \<le> H \<and> 4 \<le> W \<longrightarrow>
            (\<exists>lvl s1 ro_p ro_i ro4 s2 rd_p rd_i rd4 s3.
               choose_generator_level gt_rgb multi_level_guidance s = Inr (lvl, s1)
             \<and> permute [0, 3, 1, 2] rays_o = Inr ro_p
             \<and> interpolate ro_p (H div 4, W div 4) Bilinear s1 = Inr (ro_i, s2)
             \<and> ro_i = Tensor (next_addr (mach s)) [] [B, 3, H div 4, W div 4]
             \<and> permute [0, 2, 3, 1] ro_i = Inr ro4
             \<and> permute [0, 3, 1, 2] rays_d = Inr rd_p
             \<and> interpolate rd_p (H div 4, W div 4) Bilinear s2 = Inr (rd_i, s3)
             \<and> rd_i = Tensor (Suc (next_addr (mach s))) [] [B, 3, H div 4, W div 4]
             \<and> permute [0, 2, 3, 1] rd_i = Inr rd4
             \<and> new_calls s1 s3 =
                 [EvInterpolate ro_p (H div 4, W div 4) Bilinear ro_i,
                  EvInterpolate rd_p (H div 4, W div 4) Bilinear rd_i]
             \<and> next_addr (mach s3) = next_addr (mach s) + 2
             \<and> rng (mach s3) = rng (mach s1) \<and> next_obj s3 = next_obj s
             \<and> forward self rays_o rays_d light_positions bg_color gt_rgb multi_level_guidance
                 kwargs s
               = render_and_refine self H W lvl ro4 rd4 light_positions bg_color gt_rgb kwargs s3
             \<and> (\<forall>e. base_renderer self ro4 rd4 light_positions bg_color kwargs (mach s3) = Inl e
                   \<longrightarrow> forward self rays_o rays_d light_positions bg_color gt_rgb
                         multi_level_guidance kwargs s = Inl e)))
       \<and> (\<forall>out s'.
            forward self rays_o rays_d light_positions bg_color gt_rgb multi_level_guidance
              kwargs s = Inr (out, s') \<longrightarrow>
            (\<exists>ro_p ro_i ro4 rd_p rd_i rd4 out0.
               permute [0, 3, 1, 2] rays_o = Inr ro_p
             \<and> ro_i = Tensor (next_addr (mach s)) [] [B, 3, H div 4, W div 4]
             \<and> permute [0, 2, 3, 1] ro_i = Inr ro4
             \<and> permute [0, 3, 1, 2] rays_d = Inr rd_p
             \<and> rd_i = Tensor (Suc (next_addr (mach s))) [] [B, 3, H div 4, W div 4]
             \<and> permute [0, 2, 3, 1] rd_i = Inr rd4
             \<and> take 2 (filter is_interpolate (new_calls s s')) =
                 [EvInterpolate ro_p (H div 4, W div 4) Bilinear ro_i,
                  EvInterpolate rd_p (H div 4, W div 4) Bilinear rd_i]
             \<and> filter is_base_renderer (new_calls s s')
                 = [EvBaseRenderer ro4 rd4 light_positions bg_color kwargs out0]))"
  (is "?A \<and> ?B \<and> ?C \<and> ?D \<and> ?E")
proof -
  have old: "?A \<and> ?B \<and> ?C"
  proof (intro conjI impI allI)
    assume big: "4 \<le> H \<and> 4 \<le> W"
    from downsample_rays_succeeds [OF assms(1), of s] big
    obtain ro4 s1 where a: "downsample_rays H W rays_o s = Inr (ro4, s1)" by blast
    from downsample_rays_succeeds [OF assms(2), of s1] big
    obtain rd4 s2 where b: "downsample_rays H W rays_d s1 = Inr (rd4, s2)" by blast
    from a obtain n h w c ro_p ro_i
      where a': "shape rays_o = [n, h, w, c]" "permute [0, 3, 1, 2] rays_o = Inr ro_p"
        "permute [0, 2, 3, 1] ro_i = Inr ro4" "shape ro4 = [n, H div 4, W div 4, c]"
        "storage ro4 = next_addr (mach s)"
        "trace s1 = trace s @ [EvInterpolate ro_p (H div 4, W div 4) Bilinear ro_i]"
        "next_obj s1 = next_obj s" "next_addr (mach s1) = Suc (next_addr (mach s))"
        "rng (mach s1) = rng (mach s)"
      by (rule downsample_rays_run)
    from b obtain n' h' w' c' rd_p rd_i
      where b': "shape rays_d = [n', h', w', c']" "permute [0, 3, 1, 2] rays_d = Inr rd_p"
        "permute [0, 2, 3, 1] rd_i = Inr rd4" "shape rd4 = [n', H div 4, W div 4, c']"
        "storage rd4 = next_addr (mach s1)"
        "trace s2 = trace s1 @ [EvInterpolate rd_p (H div 4, W div 4) Bilinear rd_i]"
        "next_obj s2 = next_obj s1" "next_addr (mach s2) = Suc (next_addr (mach s1))"
        "rng (mach s2) = rng (mach s1)"
      by (rule downsample_rays_run)
    have calls: "new_calls s s2 =
                   [EvInterpolate ro_p (H div 4, W div 4) Bilinear ro_i,
                    EvInterpolate rd_p (H div 4, W div 4) Bilinear rd_i]"
      by (rule new_calls_append) (simp add: a'(6) b'(6))
    have sh: "shape ro4 = [B, H div 4, W div 4, 3]" "shape rd4 = [B, H div 4, W div 4, 3]"
      using a'(1,4) b'(1,4) assms by simp_all
    have st: "storage rd4 = Suc (next_addr (mach s))"
      "next_addr (mach s2) = next_addr (mach s) + 2"
      "rng (mach s2) = rng (mach s)" "next_obj s2 = next_obj s"
      using a'(7,8,9) b'(5,7,8,9) by simp_all
    from a b sh a'(2,3) b'(2,3) calls a'(5) st
    show "\<exists>ro4 s1 rd4 s2 ro_p ro_i rd_p rd_i.
                 downsample_rays H W rays_o s = Inr (ro4, s1)
               \<and> downsample_rays H W rays_d s1 = Inr (rd4, s2)
               \<and> shape ro4 = [B, H div 4, W div 4, 3]
               \<and> shape rd4 = [B, H div 4, W div 4, 3]
               \<and> permute [0, 3, 1, 2] rays_o = Inr ro_p \<and> permute [0, 2, 3, 1] ro_i = Inr ro4
               \<and> permute [0, 3, 1, 2] rays_d = Inr rd_p \<and> permute [0, 2, 3, 1] rd_i = Inr rd4
               \<and> new_calls s s2 =
                   [EvInterpolate ro_p (H div 4, W div 4) Bilinear ro_i,
                    EvInterpolate rd_p (H div 4, W div 4) Bilinear rd_i]
               \<and> storage ro4 = next_addr (mach s) \<and> storage rd4 = Suc (next_addr (mach s))
               \<and> next_addr (mach s2) = next_addr (mach s) + 2
               \<and> rng (mach s2) = rng (mach s) \<and> next_obj s2 = next_obj s"
      by blast
  next
    assume small: "H < 4 \<or> W < 4"
    obtain lvl s1 where l: "choose_generator_level gt_rgb multi_level_guidance s = Inr (lvl, s1)"
      using choose_generator_level_total by blast
    have "downsample_rays H W rays_o s1 = Inl RuntimeError"
      using assms(1) small by (rule downsample_rays_too_small)
    with l assms(1) show "forward self rays_o rays_d light_positions bg_color gt_rgb
        multi_level_guidance kwargs s = Inl RuntimeError"
      by (simp add: forward_def andThen_def lift_def unpack_shape4_def)
  next
    fix out s'
    assume run: "forward self rays_o rays_d light_positions bg_color gt_rgb multi_level_guidance
                kwargs s = Inr (out, s')"
    then show "4 \<le> H"
    proof (cases rule: forward_run)
      case (1 B' H' W' C' lvl pre ro_p ro_i ro4 rd_p rd_i rd4 out0 comp comp_rgb latent comp_lr
          latent_p d1 z1 lr post gan branch up gan_out rgb_out)
      from 1(1) assms(1) have "H' = H" by simp
      with 1(10) show ?thesis by (simp add: div_greater_zero_iff)
    qed
    from run show "4 \<le> W"
    proof (cases rule: forward_run)
      case (1 B' H' W' C' lvl pre ro_p ro_i ro4 rd_p rd_i rd4 out0 comp comp_rgb latent comp_lr
          latent_p d1 z1 lr post gan branch up gan_out rgb_out)
      from 1(1) assms(1) have "W' = W" by simp
      with 1(11) show ?thesis by (simp add: div_greater_zero_iff)
    qed
    from run show "\<exists>ro4 rd4. rays_forwarded (new_calls s s') = [(ro4, rd4)]
                 \<and> shape ro4 = [B, H div 4, W div 4, 3]
                 \<and> shape rd4 = [B, H div 4, W div 4, 3]"
    proof (cases rule: forward_run)
      case (1 B' H' W' C' lvl pre ro_p ro_i ro4 rd_p rd_i rd4 out0 comp comp_rgb latent comp_lr
          latent_p d1 z1 lr post gan branch up gan_out rgb_out)
      from 1(1) assms(1) have eq: "B' = B" "H' = H" "W' = W" "C' = 3" by simp_all
      have calls: "new_calls s s' = pre @
             [EvInterpolate ro_p (H' div 4, W' div 4) Bilinear ro_i,
              EvInterpolate rd_p (H' div 4, W' div 4) Bilinear rd_i,
              EvBaseRenderer ro4 rd4 light_positions bg_color kwargs out0,
              EvClone comp_rgb comp_lr,
              EvNewDist latent_p d1,
              EvSample d1 z1] @ branch @ [EvInterpolate lr (H', W') Bilinear up]"
        using 1(25) by (rule new_calls_append)
      have rf: "rays_forwarded (new_calls s s') = [(ro4, rd4)]"
        using 1(2,20) by (auto simp: calls split: if_splits)
      from 1(9) assms(2) eq have "shape rd4 = [B, H div 4, W div 4, 3]" by auto
      with rf 1(6) eq show ?thesis by simp
    qed
  qed
  have D: ?D
  proof
    assume big: "4 \<le> H \<and> 4 \<le> W"
    obtain lvl s1 where l: "choose_generator_level gt_rgb multi_level_guidance s = Inr (lvl, s1)"
      using choose_generator_level_total by blast
    from choose_generator_level_Inr [OF l]
    have l': "next_obj s1 = next_obj s" "next_addr (mach s1) = next_addr (mach s)"
      by simp_all
    from downsample_rays_succeeds [OF assms(1), of s1] big
    obtain ro4 s2 where a: "downsample_rays H W rays_o s1 = Inr (ro4, s2)" by blast
    from downsample_rays_succeeds [OF assms(2), of s2] big
    obtain rd4 s3 where b: "downsample_rays H W rays_d s2 = Inr (rd4, s3)" by blast
    from downsample_rays_Inr [OF a] obtain ro_p ro_i
      where a1: "permute [0, 3, 1, 2] rays_o = Inr ro_p"
        "interpolate ro_p (H div 4, W div 4) Bilinear s1 = Inr (ro_i, s2)"
        "permute [0, 2, 3, 1] ro_i = Inr ro4" by blast
    from downsample_rays_Inr [OF b] obtain rd_p rd_i
      where b1: "permute [0, 3, 1, 2] rays_d = Inr rd_p"
        "interpolate rd_p (H div 4, W div 4) Bilinear s2 = Inr (rd_i, s3)"
        "permute [0, 2, 3, 1] rd_i = Inr rd4" by blast
    from permute_Inr [OF a1(1)] assms(1) have "shape ro_p = [B, 3, H, W]" by simp
    with interpolate_Inr [OF a1(2)]
    have a2: "ro_i = Tensor (next_addr (mach s1)) [] [B, 3, H div 4, W div 4]"
      "trace s2 = trace s1 @ [EvInterpolate ro_p (H div 4, W div 4) Bilinear ro_i]"
      "next_obj s2 = next_obj s1" "next_addr (mach s2) = Suc (next_addr (mach s1))"
      "rng (mach s2) = rng (mach s1)"
      by auto
    from permute_Inr [OF b1(1)] assms(2) have "shape rd_p = [B, 3, H, W]" by simp
    with interpolate_Inr [OF b1(2)]
    have b2: "rd_i = Tensor (next_addr (mach s2)) [] [B, 3, H div 4, W div 4]"
      "trace s3 = trace s2 @ [EvInterpolate rd_p (H div 4, W div 4) Bilinear rd_i]"
      "next_obj s3 = next_obj s2" "next_addr (mach s3) = Suc (next_addr (mach s2))"
      "rng (mach s3) = rng (mach s2)"
      by auto
    have calls: "new_calls s1 s3 =
                 [EvInterpolate ro_p (H div 4, W div 4) Bilinear ro_i,
                  EvInterpolate rd_p (H div 4, W div 4) Bilinear rd_i]"
      by (rule new_calls_append) (simp add: a2(2) b2(2))
    have fw: "forward self rays_o rays_d light_positions bg_color gt_rgb multi_level_guidance
                 kwargs s
               = render_and_refine self H W lvl ro4 rd4 light_positions bg_color gt_rgb kwargs s3"
      using assms(1) l a b by (simp add: forward_def andThen_def lift_def unpack_shape4_def)
    have fail: "\<forall>e. base_renderer self ro4 rd4 light_positions bg_color kwargs (mach s3) = Inl e
                   \<longrightarrow> forward self rays_o rays_d light_positions bg_color gt_rgb
                         multi_level_guidance kwargs s = Inl e"
      unfolding fw by (simp add: render_and_refine_base_fails)
    have st: "ro_i = Tensor (next_addr (mach s)) [] [B, 3, H div 4, W div 4]"
      "rd_i = Tensor (Suc (next_addr (mach s))) [] [B, 3, H div 4, W div 4]"
      "next_addr (mach s3) = next_addr (mach s) + 2"
      "rng (mach s3) = rng (mach s1)" "next_obj s3 = next_obj s"
      using a2 b2 l' by simp_all
    show "\<exists>lvl s1 ro_p ro_i ro4 s2 rd_p rd_i rd4 s3.
               choose_generator_level gt_rgb multi_level_guidance s = Inr (lvl, s1)
             \<and> permute [0, 3, 1, 2] rays_o = Inr ro_p
             \<and> interpolate ro_p (H div 4, W div 4) Bilinear s1 = Inr (ro_i, s2)
             \<and> ro_i = Tensor (next_addr (mach s)) [] [B, 3, H div 4, W div 4]
             \<and> permute [0, 2, 3, 1] ro_i = Inr ro4
             \<and> permute [0, 3, 1, 2] rays_d = Inr rd_p
             \<and> interpolate rd_p (H div 4, W div 4) Bilinear s2 = Inr (rd_i, s3)
             \<and> rd_i = Tensor (Suc (next_addr (mach s))) [] [B, 3, H div 4, W div 4]
             \<and> permute [0, 2, 3, 1] rd_i = Inr rd4
             \<and> new_calls s1 s3 =
                 [EvInterpolate ro_p (H div 4, W div 4) Bilinear ro_i,
                  EvInterpolate rd_p (H div 4, W div 4) Bilinear rd_i]
             \<and> next_addr (mach s3) = next_addr (mach s) + 2
             \<and> rng (mach s3) = rng (mach s1) \<and> next_obj s3 = next_obj s
             \<and> forward self rays_o rays_d light_positions bg_color gt_rgb multi_level_guidance
                 kwargs s
               = render_and_refine self H W lvl ro4 rd4 light_positions bg_color gt_rgb kwargs s3
             \<and> (\<forall>e. base_renderer self ro4 rd4 light_positions bg_color kwargs (mach s3) = Inl e
                   \<longrightarrow> forward self rays_o rays_d light_positions bg_color gt_rgb
                         multi_level_guidance kwargs s = Inl e)"
      apply (rule exI [where x = lvl], rule exI [where x = s1], rule exI [where x = ro_p],
          rule exI [where x = ro_i], rule exI [where x = ro4], rule exI [where x = s2],
          rule exI [where x = rd_p], rule exI [where x = rd_i], rule exI [where x = rd4],
          rule exI [where x = s3])
      using l a1 b1 st calls fw fail
      apply (intro conjI)
      apply assumption+
      done
  qed
  have E: ?E
  proof (intro allI impI)
    fix out s'
    assume "forward self rays_o rays_d light_positions bg_color gt_rgb multi_level_guidance
              kwargs s = Inr (out, s')"
    then show "\<exists>ro_p ro_i ro4 rd_p rd_i rd4 out0.
               permute [0, 3, 1, 2] rays_o = Inr ro_p
             \<and> ro_i = Tensor (next_addr (mach s)) [] [B, 3, H div 4, W div 4]
             \<and> permute [0, 2, 3, 1] ro_i = Inr ro4
             \<and> permute [0, 3, 1, 2] rays_d = Inr rd_p
             \<and> rd_i = Tensor (Suc (next_addr (mach s))) [] [B, 3, H div 4, W div 4]
             \<and> permute [0, 2, 3, 1] rd_i = Inr rd4
             \<and> take 2 (filter is_interpolate (new_calls s s')) =
                 [EvInterpolate ro_p (H div 4, W div 4) Bilinear ro_i,
                  EvInterpolate rd_p (H div 4, W div 4) Bilinear rd_i]
             \<and> filter is_base_renderer (new_calls s s')
                 = [EvBaseRenderer ro4 rd4 light_positions bg_color kwargs out0]"
    proof (cases rule: forward_run)
      case (1 B' H' W' C' lvl pre ro_p ro_i ro4 rd_p rd_i rd4 out0 comp comp_rgb latent comp_lr
          latent_p d1 z1 lr post gan branch up gan_out rgb_out)
      from 1(1) assms(1) have eq: "B' = B" "H' = H" "W' = W" "C' = 3" by simp_all
      have calls: "new_calls s s' = pre @
           [EvInterpolate ro_p (H div 4, W div 4) Bilinear ro_i,
            EvInterpolate rd_p (H div 4, W div 4) Bilinear rd_i,
            EvBaseRenderer ro4 rd4 light_positions bg_color kwargs out0,
            EvClone comp_rgb comp_lr,
            EvNewDist latent_p d1,
            EvSample d1 z1] @ branch @ [EvInterpolate lr (H, W) Bilinear up]"
        using new_calls_append [OF 1(25)] eq by simp
      have pre: "filter is_interpolate pre = []" "filter is_base_renderer pre = []"
        using 1(2) by (auto split: if_splits)
      have tk: "take 2 (filter is_interpolate (new_calls s s')) =
                 [EvInterpolate ro_p (H div 4, W div 4) Bilinear ro_i,
                  EvInterpolate rd_p (H div 4, W div 4) Bilinear rd_i]"
        using pre by (simp add: calls)
      have bs: "filter is_base_renderer (new_calls s s')
                 = [EvBaseRenderer ro4 rd4 light_positions bg_color kwargs out0]"
        using pre 1(20) by (auto simp: calls)
      from 1(28) assms(2) have rdi: "rd_i = Tensor (Suc (next_addr (mach s))) [] [B, 3, H div 4, W div 4]"
        using eq by auto
      from 1(27) eq have roi: "ro_i = Tensor (next_addr (mach s)) [] [B, 3, H div 4, W div 4]"
        by simp
      show ?thesis
        apply (rule exI [where x = ro_p], rule exI [where x = ro_i], rule exI [where x = ro4],
            rule exI [where x = rd_p], rule exI [where x = rd_i], rule exI [where x = rd4],
            rule exI [where x = out0])
        using 1(3) roi 1(5) 1(7) rdi 1(8) tk bs
        apply (intro conjI)
        apply assumption+
        done
    qed
  qed
  from old D E show ?thesis by blast
qed

theorem C5_witness:
  "shape (demo_image 0 10 7) = [1, 10, 7, 3] \<and> shape (demo_image 1 10 7) = [1, 10, 7, 3]
   \<and> (4 :: nat) \<le> 10 \<and> (4 :: nat) \<le> 7 \<and> \<not> (4 :: nat) dvd 10 \<and> \<not> (4 :: nat) dvd 7
   \<and> returns (downsample_rays 10 7 (demo_image 0 10 7) (demo_state 0))
   \<and> returns (demo_forward 10 7 None False 0)
   \<and> rays_forwarded (calls_of (demo_forward 10 7 None False 0))
       = [(Tensor 4 [Permute [0, 2, 3, 1]] [1, 2, 1, 3],
           Tensor 5 [Permute [0, 2, 3, 1]] [1, 2, 1, 3])]
   \<and> take 2 (filter is_interpolate (calls_of (demo_forward 10 7 None False 0)))
       = [EvInterpolate (Tensor 0 [Permute [0, 3, 1, 2]] [1, 3, 10, 7]) (2, 1) Bilinear
            (Tensor 4 [] [1, 3, 2, 1]),
          EvInterpolate (Tensor 1 [Permute [0, 3, 1, 2]] [1, 3, 10, 7]) (2, 1) Bilinear
            (Tensor 5 [] [1, 3, 2, 1])]"
proof -
  have a: "shape (demo_image 0 10 7) = [1, 10, 7, 3]" "shape (demo_image 1 10 7) = [1, 10, 7, 3]"
    by (simp_all add: demo_image_def)
  have n: "(4 :: nat) \<le> 10 \<and> (4 :: nat) \<le> 7 \<and> \<not> (4 :: nat) dvd 10 \<and> \<not> (4 :: nat) dvd 7"
    by simp
  note C5_rays_downsampled [OF a, of "demo_state 0" demo_modules demo_lights None None False
      Map.empty]
  moreover have "returns (downsample_rays 10 7 (demo_image 0 10 7) (demo_state 0))"
    by (simp add: demo_eval demo_obs)
  moreover have "returns (demo_forward 10 7 None False 0)"
    by (simp add: demo_eval demo_obs)
  moreover have "rays_forwarded (calls_of (demo_forward 10 7 None False 0))
       = [(Tensor 4 [Permute [0, 2, 3, 1]] [1, 2, 1, 3],
           Tensor 5 [Permute [0, 2, 3, 1]] [1, 2, 1, 3])]"
    by (simp add: demo_eval demo_obs)
  moreover have "take 2 (filter is_interpolate (calls_of (demo_forward 10 7 None False 0)))
       = [EvInterpolate (Tensor 0 [Permute [0, 3, 1, 2]] [1, 3, 10, 7]) (2, 1) Bilinear
            (Tensor 4 [] [1, 3, 2, 1]),
          EvInterpolate (Tensor 1 [Permute [0, 3, 1, 2]] [1, 3, 10, 7]) (2, 1) Bilinear
            (Tensor 5 [] [1, 3, 2, 1])]"
    by (simp add: demo_eval demo_obs)
  ultimately show ?thesis using a n by blast
qed

subsection \<open>Buffers\<close>

lemma keeps_allocationD:
  assumes "keeps_allocation self"
  shows "global_encoder self x m = Inr (y, m') \<Longrightarrow>
           next_addr m \<le> next_addr m' \<and> (storage y = storage x \<or> next_addr m \<le> storage y)"
    and "local_encoder self x m = Inr (y, m') \<Longrightarrow> next_addr m \<le> next_addr m'"
    and "generator self x g m = Inr (y, m') \<Longrightarrow>
           storage y = storage x \<or> storage y = storage g \<or> next_addr m \<le> storage y"
    and "dist_init self p m = Inr m' \<Longrightarrow> next_addr m \<le> next_addr m'"
    and "dist_sample self p m = Inr (z, m') \<Longrightarrow> next_addr m \<le> next_addr m'"
  using assms unfolding keeps_allocation_def by blast+

text \<open>The output of the generator lives in a buffer that was free when the branch began.\<close>

lemma guidance_branch_storage:
  assumes ka: "keeps_allocation self"
    and run: "guidance_branch self lvl gt lr z d s = Inr ((post, gan), s')"
  shows "next_addr (mach s) \<le> storage gan"
  using run
proof (cases rule: guidance_branch_cases)
  case (level0 i s1 g s2 x s3)
  from interpolate_Inr [OF level0(3)]
  have i: "storage i = next_addr (mach s)" "next_addr (mach s1) = Suc (next_addr (mach s))"
    by auto
  from call_global_encoder_Inr [OF level0(4)]
  have "global_encoder self i (mach s1) = Inr (g, mach s2)" by simp
  from keeps_allocationD(1) [OF ka this] i
  have g: "next_addr (mach s) \<le> storage g" "next_addr (mach s) \<le> next_addr (mach s2)"
    by auto
  from cat_dim1_Inr [OF level0(5)] g(2)
  have x: "next_addr (mach s) \<le> storage x" "next_addr (mach s) \<le> next_addr (mach s3)"
    by simp_all
  from call_generator_Inr [OF level0(6)]
  have "generator self x g (mach s3) = Inr (gan, mach s')" by simp
  from keeps_allocationD(3) [OF ka this] g(1) x show ?thesis by auto
next
  case (level1 gt_t gt_p i s1 g s2 x s3)
  from interpolate_Inr [OF level1(5)]
  have i: "storage i = next_addr (mach s)" "next_addr (mach s1) = Suc (next_addr (mach s))"
    by auto
  from call_global_encoder_Inr [OF level1(6)]
  have "global_encoder self i (mach s1) = Inr (g, mach s2)" by simp
  from keeps_allocationD(1) [OF ka this] i
  have g: "next_addr (mach s) \<le> storage g" "next_addr (mach s) \<le> next_addr (mach s2)"
    by auto
  from cat_dim1_Inr [OF level1(7)] g(2)
  have x: "next_addr (mach s) \<le> storage x" "next_addr (mach s) \<le> next_addr (mach s3)"
    by simp_all
  from call_generator_Inr [OF level1(8)]
  have "generator self x g (mach s3) = Inr (gan, mach s')" by simp
  from keeps_allocationD(3) [OF ka this] g(1) x show ?thesis by auto
next
  case (level2 gt_t gt_p i s1 g s2 l s3 s4 z2 s5 x s6)
  from interpolate_Inr [OF level2(4)]
  have i: "storage i = next_addr (mach s)" "next_addr (mach s1) = Suc (next_addr (mach s))"
    by auto
  from call_global_encoder_Inr [OF level2(5)]
  have "global_encoder self i (mach s1) = Inr (g, mach s2)" by simp
  from keeps_allocationD(1) [OF ka this] i
  have g: "next_addr (mach s) \<le> storage g" "next_addr (mach s) \<le> next_addr (mach s2)"
    by auto
  from call_local_encoder_Inr [OF level2(6)]
  have "local_encoder self gt_p (mach s2) = Inr (l, mach s3)" by simp
  from keeps_allocationD(2) [OF ka this] g(2)
  have n3: "next_addr (mach s) \<le> next_addr (mach s3)" by simp
  from DiagonalGaussianDistribution_Inr [OF level2(7)]
  have "dist_init self l (mach s3) = Inr (mach s4)" by simp
  from keeps_allocationD(4) [OF ka this] n3
  have n4: "next_addr (mach s) \<le> next_addr (mach s4)" by simp
  from sample_Inr [OF level2(8)]
  have "dist_sample self (parameters post) (mach s4) = Inr (z2, mach s5)" by simp
  from keeps_allocationD(5) [OF ka this] n4
  have n5: "next_addr (mach s) \<le> next_addr (mach s5)" by simp
  from cat_dim1_Inr [OF level2(9)] n5
  have x: "next_addr (mach s) \<le> storage x" "next_addr (mach s) \<le> next_addr (mach s6)"
    by simp_all
  from call_generator_Inr [OF level2(10)]
  have "generator self x g (mach s6) = Inr (gan, mach s')" by simp
  from keeps_allocationD(3) [OF ka this] g(1) x show ?thesis by auto
qed

text \<open>
  Claim C8. With wrapped networks that follow the discipline of allocation, in every call
  of \<^verbatim>\<open>forward\<close> that returns the tensor under \<^verbatim>\<open>comp_lr_rgb\<close> and the
  tensor under \<^verbatim>\<open>comp_gan_rgb\<close> live in different buffers: the first is the clone
  made at line 83, in a buffer of its own, and the second is a view of the output of the
  generator, which was computed later from tensors that are not the clone. So writing
  through one of them changes nothing of what the other shows.
\<close>

theorem C8_low_res_and_gan_outputs_do_not_alias:
  assumes "keeps_allocation self"
    and "forward self rays_o rays_d light_positions bg_color gt_rgb multi_level_guidance kwargs s
           = Inr (out, s')"
  shows "\<exists>t_lr t_gan. out ''comp_lr_rgb'' = Some (PyTensor t_lr)
           \<and> out ''comp_gan_rgb'' = Some (PyTensor t_gan)
           \<and> storage t_lr \<noteq> storage t_gan
           \<and> (\<forall>h b. observe t_gan (mutate t_lr b h) = observe t_gan h
                    \<and> observe t_lr (mutate t_gan b h) = observe t_lr h)"
  using assms(2)
proof (cases rule: forward_cases)
  case (1 B H W C lvl s1 ro4 s2 rd4 s3 out0 s4 comp comp_rgb latent comp_lr s5 latent_p d1 s6
      z1 s7 lr post gan s8 up gan_out rgb_out)
  from clone_Inr [OF 1(9)]
  have c: "storage comp_lr = next_addr (mach s4)"
    "next_addr (mach s5) = Suc (next_addr (mach s4))" by simp_all
  from DiagonalGaussianDistribution_Inr [OF 1(11)]
  have "dist_init self latent_p (mach s5) = Inr (mach s6)" by simp
  from keeps_allocationD(4) [OF assms(1) this]
  have n6: "next_addr (mach s5) \<le> next_addr (mach s6)" .
  from sample_Inr [OF 1(12)]
  have "dist_sample self (parameters d1) (mach s6) = Inr (z1, mach s7)" by simp
  from keeps_allocationD(5) [OF assms(1) this]
  have n7: "next_addr (mach s6) \<le> next_addr (mach s7)" .
  from guidance_branch_storage [OF assms(1) 1(14)]
  have "next_addr (mach s7) \<le> storage gan" .
  with c n6 n7 have "storage comp_lr < storage gan" by simp
  moreover from permute_Inr [OF 1(16)] have "storage gan_out = storage gan" by simp
  ultimately have ne: "storage comp_lr \<noteq> storage gan_out" by simp
  then have "\<forall>h b. observe gan_out (mutate comp_lr b h) = observe gan_out h
                    \<and> observe comp_lr (mutate gan_out b h) = observe comp_lr h"
    by (simp add: observe_def mutate_def)
  moreover have "out ''comp_lr_rgb'' = Some (PyTensor comp_lr)"
    "out ''comp_gan_rgb'' = Some (PyTensor gan_out)"
    by (simp_all add: 1(18))
  ultimately show ?thesis using ne by blast
qed

theorem C8_witness:
  "keeps_allocation demo_modules
   \<and> returns (demo_forward 8 8 (Some (demo_image 3 8 8)) True 2)
   \<and> storage_of (returned (demo_forward 8 8 (Some (demo_image 3 8 8)) True 2) ''comp_lr_rgb'')
       = Some 8
   \<and> storage_of (returned (demo_forward 8 8 (Some (demo_image 3 8 8)) True 2) ''comp_gan_rgb'')
       = Some 15"
proof -
  have k: "keeps_allocation demo_modules"
    unfolding keeps_allocation_def
    by (auto simp: demo_modules_def demo_encoder_def demo_generator_def demo_sample_def
        split: list.splits)
  have r: "returns (demo_forward 8 8 (Some (demo_image 3 8 8)) True 2)"
    by (simp add: demo_eval demo_obs)
  then obtain out s' where run: "demo_forward 8 8 (Some (demo_image 3 8 8)) True 2 = Inr (out, s')"
    by (elim returnsE) (metis surj_pair)
  note C8_low_res_and_gan_outputs_do_not_alias [OF k run [unfolded demo_forward_def]]
  moreover have "storage_of (returned (demo_forward 8 8 (Some (demo_image 3 8 8)) True 2)
      ''comp_lr_rgb'') = Some 8"
    by (simp add: demo_eval demo_obs storage_of_def)
  moreover have "storage_of (returned (demo_forward 8 8 (Some (demo_image 3 8 8)) True 2)
      ''comp_gan_rgb'') = Some 15"
    by (simp add: demo_eval demo_obs storage_of_def)
  ultimately show ?thesis using k r by blast
qed

end
